theory Spec2Isabelle
  imports Main "HOL-Library.Sublist"
begin

section \<open>JavaScript values, errors and property access\<close>

text \<open>
  The tracker (\<^verbatim>\<open>src/scripts/main.js\<close>) handles values that come out of
  \<^verbatim>\<open>JSON.parse\<close> or are passed in by the page: option objects, attribute objects,
  GraphQL responses and record ids. They are modelled by one datatype of JavaScript
  values. An object is the association list of its own properties (the first entry of a
  key is the one that is read).
\<close>

datatype jsval =
    Undefined
  | Null
  | Bool bool
  | Num int
  | Str string
  | Arr "jsval list"
  | Obj "(string \<times> jsval) list"

text \<open>
  What a \<^verbatim>\<open>throw\<close> can carry here: \<^verbatim>\<open>new Error(m)\<close> with the value \<open>m\<close> given to
  the constructor, the \<^verbatim>\<open>TypeError\<close> of a property read on \<^verbatim>\<open>null\<close> or
  \<^verbatim>\<open>undefined\<close>, and whatever a callback of the page throws.
\<close>

datatype js_error =
    Error jsval
  | TypeError
  | CallbackError

text \<open>
  \<^verbatim>\<open>v.name\<close> for a property name that is not an array index. Reading a property of
  \<^verbatim>\<open>null\<close> or \<^verbatim>\<open>undefined\<close> throws; an object yields its own property or
  \<^verbatim>\<open>undefined\<close>; strings and arrays have \<^verbatim>\<open>length\<close>; every other read on a
  primitive or an array is \<^verbatim>\<open>undefined\<close> (the names read by the tracker are not
  defined on the standard prototypes).
\<close>

fun get_prop :: "jsval \<Rightarrow> string \<Rightarrow> js_error + jsval" where
  "get_prop Undefined k = Inl TypeError"
| "get_prop Null k = Inl TypeError"
| "get_prop (Obj kvs) k = (case map_of kvs k of None \<Rightarrow> Inr Undefined | Some v \<Rightarrow> Inr v)"
| "get_prop (Arr xs) k = (if k = ''length'' then Inr (Num (int (length xs))) else Inr Undefined)"
| "get_prop (Str s) k = (if k = ''length'' then Inr (Num (int (length s))) else Inr Undefined)"
| "get_prop (Bool b) k = Inr Undefined"
| "get_prop (Num n) k = Inr Undefined"

text \<open>\<^verbatim>\<open>v[0]\<close>: the first element of an array, the first character of a string, the
  property \<^verbatim>\<open>"0"\<close> of an object.\<close>

fun get_index0 :: "jsval \<Rightarrow> js_error + jsval" where
  "get_index0 Undefined = Inl TypeError"
| "get_index0 Null = Inl TypeError"
| "get_index0 (Obj kvs) = (case map_of kvs ''0'' of None \<Rightarrow> Inr Undefined | Some v \<Rightarrow> Inr v)"
| "get_index0 (Arr xs) = (case xs of [] \<Rightarrow> Inr Undefined | x # _ \<Rightarrow> Inr x)"
| "get_index0 (Str s) = (case s of [] \<Rightarrow> Inr Undefined | c # _ \<Rightarrow> Inr (Str [c]))"
| "get_index0 (Bool b) = Inr Undefined"
| "get_index0 (Num n) = Inr Undefined"

text \<open>\<^verbatim>\<open>v != null\<close> (loose inequality): false exactly for \<^verbatim>\<open>null\<close> and
  \<^verbatim>\<open>undefined\<close>.\<close>

definition not_nullish :: "jsval \<Rightarrow> bool" where
  "not_nullish v = (v \<noteq> Null \<and> v \<noteq> Undefined)"

section \<open>Options\<close>

record config =
  detailed :: bool
  ignoreLocalhost :: bool

text \<open>
  \<^verbatim>\<open>validate(opts = {})\<close>, lines 10 to 23. The default parameter replaces
  \<^verbatim>\<open>undefined\<close> only; the two property reads throw on \<^verbatim>\<open>null\<close>.
  \<^verbatim>\<open>=== true\<close> and \<^verbatim>\<open>!== false\<close> are strict comparisons with the booleans.
\<close>

definition validate :: "jsval \<Rightarrow> js_error + config" where
  "validate opts0 =
     (let opts = (if opts0 = Undefined then Obj [] else opts0) in
      case get_prop opts ''detailed'' of
        Inl e \<Rightarrow> Inl e
      | Inr d \<Rightarrow>
         (case get_prop opts ''ignoreLocalhost'' of
            Inl e \<Rightarrow> Inl e
          | Inr l \<Rightarrow> Inr \<lparr> detailed = (d = Bool True), ignoreLocalhost = (l \<noteq> Bool False) \<rparr>))"

section \<open>Eligibility predicates\<close>

text \<open>\<^verbatim>\<open>isLocalhost(hostname)\<close>, lines 30 to 34.\<close>

definition isLocalhost :: "string \<Rightarrow> bool" where
  "isLocalhost hostname =
     (hostname = '''' \<or> hostname = ''localhost'' \<or> hostname = ''127.0.0.1'' \<or> hostname = ''::1'')"

text \<open>
  \<^verbatim>\<open>isBot(userAgent)\<close>, lines 42 to 46, is
  \<^verbatim>\<open>(/bot|crawler|spider|crawling/i).test(userAgent)\<close>. The regular expression is a
  disjunction of literal alternatives with the flag \<^verbatim>\<open>i\<close> and without the flag
  \<^verbatim>\<open>u\<close>: two characters match when their canonical forms are equal, the canonical
  form being the upper case one. The literals of this expression are ASCII letters and
  a character outside ASCII never has an ASCII canonical form, so only the mapping of
  \<^verbatim>\<open>a\<close> to \<^verbatim>\<open>z\<close> matters and every other character is left as it is.
  \<^verbatim>\<open>test\<close> tries the alternatives at every start index from the left.
\<close>

definition Canonicalize :: "char \<Rightarrow> char" where
  "Canonicalize c =
     (let n = (of_char c :: nat) in if 97 \<le> n \<and> n \<le> 122 then char_of (n - 32) else c)"

definition lower_letters :: string where
  "lower_letters = ''abcdefghijklmnopqrstuvwxyz''"

fun match_literal :: "string \<Rightarrow> string \<Rightarrow> bool" where
  "match_literal [] s = True"
| "match_literal (p # ps) [] = False"
| "match_literal (p # ps) (c # cs) = (Canonicalize p = Canonicalize c \<and> match_literal ps cs)"

definition match_here :: "string list \<Rightarrow> string \<Rightarrow> bool" where
  "match_here alts s = list_ex (\<lambda>p. match_literal p s) alts"

fun RegExp_test :: "string list \<Rightarrow> string \<Rightarrow> bool" where
  "RegExp_test alts [] = match_here alts []"
| "RegExp_test alts (c # cs) = (match_here alts (c # cs) \<or> RegExp_test alts cs)"

definition bot_alternatives :: "string list" where
  "bot_alternatives = [''bot'', ''crawler'', ''spider'', ''crawling'']"

definition isBot :: "string \<Rightarrow> bool" where
  "isBot userAgent = RegExp_test bot_alternatives userAgent"

text \<open>
  The specification's wording, for comparison with \<open>isBot\<close>: the string \<open>u\<close>
  contains the string \<open>p\<close> when case is ignored, which is to say that \<open>u\<close> in lower
  case has \<open>p\<close> in lower case as a contiguous part.
\<close>

definition ascii_lower :: "char \<Rightarrow> char" where
  "ascii_lower c =
     (let n = (of_char c :: nat) in if 65 \<le> n \<and> n \<le> 90 then char_of (n + 32) else c)"

definition contains_ignoring_case :: "string \<Rightarrow> string \<Rightarrow> bool" where
  "contains_ignoring_case u p = sublist (map ascii_lower p) (map ascii_lower u)"

text \<open>\<^verbatim>\<open>isFakeRecordId(recordId)\<close>, lines 53 to 57: strict equality with the reserved
  id.\<close>

definition fakeRecordId :: string where
  "fakeRecordId = ''88888888-8888-8888-8888-888888888888''"

definition isFakeRecordId :: "jsval \<Rightarrow> bool" where
  "isFakeRecordId recordId = (recordId = Str fakeRecordId)"

section \<open>Endpoint\<close>

text \<open>\<^verbatim>\<open>s.substr(start)\<close> with one argument: a negative start counts from the end
  and is clamped at the beginning of the string.\<close>

definition substr :: "string \<Rightarrow> int \<Rightarrow> string" where
  "substr s start =
     (let n = int (length s);
          from = (if start < 0 then max (n + start) 0 else min start n)
      in drop (nat from) s)"

text \<open>\<^verbatim>\<open>endpoint(server)\<close>, lines 154 to 160.\<close>

definition endpoint :: "string \<Rightarrow> string" where
  "endpoint server =
     (let hasTrailingSlash = (substr server (- 1) = ''/'')
      in server @ (if hasTrailingSlash then '''' else ''/'') @ ''api'')"

text \<open>
  The specification's wording, for comparison with \<open>endpoint\<close>: the base URL with
  exactly one trailing slash, followed by the fixed segment.
\<close>

definition with_exactly_one_trailing_slash :: "string \<Rightarrow> string" where
  "with_exactly_one_trailing_slash s = rev (dropWhile (\<lambda>c. c = CHR ''/'') (rev s)) @ ''/''"

definition endpoint_spec :: "string \<Rightarrow> string" where
  "endpoint_spec s = with_exactly_one_trailing_slash s @ ''api''"

section \<open>Request bodies\<close>

text \<open>
  The two GraphQL documents are template literals that keep the line breaks and the
  tabs of the source file: every line of the literal is a line break, its indentation
  and its text.
\<close>

definition template_line :: "nat \<times> string \<Rightarrow> string" where
  "template_line l = CHR 0x0A # replicate (fst l) (CHR 0x09) @ snd l"

definition createRecordQuery :: string where
  "createRecordQuery = concat (map template_line
     [(2, ''mutation createRecord($domainId: ID!, $input: CreateRecordInput!) {''),
      (3, ''createRecord(domainId: $domainId, input: $input) {''),
      (4, ''payload {''),
      (5, ''id''),
      (4, ''}''),
      (3, ''}''),
      (2, ''}''),
      (1, [])])"

definition updateRecordQuery :: string where
  "updateRecordQuery = concat (map template_line
     [(2, ''mutation updateRecord($id: ID!) {''),
      (3, ''updateRecord(id: $id) {''),
      (4, ''success''),
      (3, ''}''),
      (2, ''}''),
      (1, [])])"

text \<open>\<^verbatim>\<open>createRecordBody(domainId, attrs)\<close>, lines 99 to 121, and
  \<^verbatim>\<open>updateRecordBody(recordId)\<close>, lines 128 to 147.\<close>

definition createRecordBody :: "jsval \<Rightarrow> jsval \<Rightarrow> jsval" where
  "createRecordBody domainId attrs =
     Obj [(''query'', Str createRecordQuery),
          (''variables'', Obj [(''domainId'', domainId), (''input'', attrs)])]"

definition updateRecordBody :: "jsval \<Rightarrow> jsval" where
  "updateRecordBody recordId =
     Obj [(''query'', Str updateRecordQuery),
          (''variables'', Obj [(''id'', recordId)])]"

section \<open>One tracking session in the browser\<close>

text \<open>
  The functions that \<^verbatim>\<open>send\<close> receives as \<^verbatim>\<open>next\<close>, by the place that builds
  them: \<open>CreateNext\<close> is the arrow function of \<^verbatim>\<open>record\<close> (line 219) around the
  callback of \<^verbatim>\<open>_record\<close> (lines 293 to 314); \<open>UpdateNext recordId\<close> is the arrow
  function of \<^verbatim>\<open>updateRecord\<close> (line 236) around the one that calls
  \<^verbatim>\<open>onUpdate(recordId)\<close> (lines 308 and 351).
\<close>

datatype next_fn = CreateNext | UpdateNext jsval

text \<open>An \<^verbatim>\<open>XMLHttpRequest\<close> as \<^verbatim>\<open>send\<close> sets it up; \<open>xhr_body\<close> is the value
  given to \<^verbatim>\<open>JSON.stringify\<close>.\<close>

record xhr =
  xhr_method :: string
  xhr_url :: string
  xhr_headers :: "(string \<times> string) list"
  xhr_withCredentials :: bool
  xhr_body :: jsval
  xhr_next :: next_fn

text \<open>An interval started by \<^verbatim>\<open>setInterval\<close>: its handle, its period in
  milliseconds and the record id that its callback has captured.\<close>

record timer =
  timer_id :: nat
  timer_delay :: nat
  timer_recordId :: jsval

text \<open>
  The callbacks \<^verbatim>\<open>onCreate\<close> and \<^verbatim>\<open>onUpdate\<close> are code of the page. What such
  a function can do to the session: it holds the handle, so it may call
  \<^verbatim>\<open>stop()\<close>, and it may throw. A missing callback is replaced by
  \<^verbatim>\<open>() => {}\<close>.
\<close>

record callback_effect =
  calls_stop :: bool
  throws :: bool

type_synonym callback = "jsval \<Rightarrow> callback_effect"

record callbacks =
  onCreate :: "callback option"
  onUpdate :: "callback option"

datatype call = OnCreate jsval | OnUpdate jsval

text \<open>What the code reads from the browser: \<^verbatim>\<open>location.hostname\<close>,
  \<^verbatim>\<open>navigator.userAgent\<close> and \<^verbatim>\<open>JSON.parse\<close> (\<open>None\<close> when it throws).\<close>

record host =
  location_hostname :: string
  navigator_userAgent :: string
  JSON_parse :: "string \<Rightarrow> jsval option"

text \<open>The closure of \<^verbatim>\<open>create({ server, domainId }, opts)\<close>, lines 266 to 367, with
  the validated options.\<close>

record ackee_instance =
  i_server :: string
  i_domainId :: jsval
  i_opts :: config

definition create :: "string \<Rightarrow> jsval \<Rightarrow> jsval \<Rightarrow> js_error + ackee_instance" where
  "create srv did options =
     (case validate options of
        Inl e \<Rightarrow> Inl e
      | Inr c \<Rightarrow> Inr \<lparr> i_server = srv, i_domainId = did, i_opts = c \<rparr>)"

text \<open>
  The state of one session and everything it has done so far: the warnings written with
  \<^verbatim>\<open>console.warn\<close>, the requests sent (a request is named by its position), the
  requests whose \<^verbatim>\<open>load\<close> event has been delivered, the intervals that are
  running, the number of \<^verbatim>\<open>setInterval\<close> calls, the errors that no handler caught,
  the calls of the page's callbacks, and the variable \<^verbatim>\<open>isStopped\<close> of the closure.
\<close>

record world =
  console :: "string list"
  xhrs :: "xhr list"
  loaded :: "nat set"
  timers :: "timer list"
  timer_count :: nat
  uncaught :: "js_error list"
  calls :: "call list"
  isStopped :: bool

definition new_world :: world where
  "new_world = \<lparr> console = [], xhrs = [], loaded = {}, timers = [], timer_count = 0,
                  uncaught = [], calls = [], isStopped = False \<rparr>"

text \<open>\<^verbatim>\<open>const stop = () => { isStopped = true }\<close>, lines 281 and 327.\<close>

definition stop :: "world \<Rightarrow> world" where
  "stop w = w\<lparr> isStopped := True \<rparr>"

definition console_warn :: "string \<Rightarrow> world \<Rightarrow> world" where
  "console_warn msg w = w\<lparr> console := console w @ [msg] \<rparr>"

text \<open>An error thrown inside an event handler: there is no \<^verbatim>\<open>catch\<close> around it, the
  handler ends and the error reaches the browser.\<close>

definition uncaught_error :: "js_error \<Rightarrow> world \<Rightarrow> world" where
  "uncaught_error e w = w\<lparr> uncaught := uncaught w @ [e] \<rparr>"

definition setInterval :: "nat \<Rightarrow> jsval \<Rightarrow> world \<Rightarrow> world" where
  "setInterval delay recordId w =
     w\<lparr> timers := timers w @
            [\<lparr> timer_id = timer_count w, timer_delay = delay, timer_recordId = recordId \<rparr>],
        timer_count := Suc (timer_count w) \<rparr>"

definition clearInterval :: "nat \<Rightarrow> world \<Rightarrow> world" where
  "clearInterval t w = w\<lparr> timers := filter (\<lambda>tm. timer_id tm \<noteq> t) (timers w) \<rparr>"

text \<open>
  \<^verbatim>\<open>send(url, body, next)\<close>, lines 170 to 203, up to \<^verbatim>\<open>xhr.send\<close>: the request is
  opened with \<^verbatim>\<open>POST\<close>, gets its content type and \<^verbatim>\<open>withCredentials = true\<close>,
  and is sent.
\<close>

definition send :: "string \<Rightarrow> jsval \<Rightarrow> next_fn \<Rightarrow> world \<Rightarrow> world" where
  "send url body nxt w =
     w\<lparr> xhrs := xhrs w @
            [\<lparr> xhr_method = ''POST'', xhr_url = url,
               xhr_headers = [(''Content-Type'', ''application/json;charset=UTF-8'')],
               xhr_withCredentials = True, xhr_body = body, xhr_next = nxt \<rparr>] \<rparr>"

text \<open>
  The checks of \<^verbatim>\<open>xhr.onload\<close>, lines 176 to 196, before \<^verbatim>\<open>return next(json)\<close>:
  \<open>Inl\<close> is the error thrown, \<open>Inr json\<close> the value that \<^verbatim>\<open>next\<close> is called with.
\<close>

definition onload :: "(string \<Rightarrow> jsval option) \<Rightarrow> nat \<Rightarrow> string \<Rightarrow> js_error + jsval" where
  "onload parse status responseText =
     (if status \<noteq> 200 then Inl (Error (Str ''Server returned with an unhandled status''))
      else case parse responseText of
        None \<Rightarrow> Inl (Error (Str ''Failed to parse response from server''))
      | Some json \<Rightarrow>
         (case get_prop json ''errors'' of
            Inl e \<Rightarrow> Inl e
          | Inr errors \<Rightarrow>
             if not_nullish errors then
               (case get_index0 errors of
                  Inl e \<Rightarrow> Inl e
                | Inr first \<Rightarrow>
                   (case get_prop first ''message'' of
                      Inl e \<Rightarrow> Inl e
                    | Inr message \<Rightarrow> Inl (Error message)))
             else Inr json))"

text \<open>\<^verbatim>\<open>record(server, domainId, attrs, next)\<close>, lines 213 to 223, and
  \<^verbatim>\<open>updateRecord(server, recordId, next)\<close>, lines 231 to 240.\<close>

definition record' :: "string \<Rightarrow> jsval \<Rightarrow> jsval \<Rightarrow> world \<Rightarrow> world" where
  "record' srv domainId attrs w =
     send (endpoint srv) (createRecordBody domainId attrs) CreateNext w"

definition updateRecord :: "string \<Rightarrow> jsval \<Rightarrow> world \<Rightarrow> world" where
  "updateRecord srv recordId w =
     send (endpoint srv) (updateRecordBody recordId) (UpdateNext recordId) w"

text \<open>\<^verbatim>\<open>json.data.createRecord.payload.id\<close>, line 220.\<close>

definition created_id :: "jsval \<Rightarrow> js_error + jsval" where
  "created_id json =
     (case get_prop json ''data'' of
        Inl e \<Rightarrow> Inl e
      | Inr d \<Rightarrow>
         (case get_prop d ''createRecord'' of
            Inl e \<Rightarrow> Inl e
          | Inr c \<Rightarrow>
             (case get_prop c ''payload'' of
                Inl e \<Rightarrow> Inl e
              | Inr p \<Rightarrow> get_prop p ''id'')))"

text \<open>A call of a callback of the page: the call is recorded, the callback may stop the
  session, and the result says whether it threw.\<close>

definition call_back :: "callback option \<Rightarrow> call \<Rightarrow> jsval \<Rightarrow> world \<Rightarrow> bool \<times> world" where
  "call_back f c v w =
     (let eff = (case f of None \<Rightarrow> \<lparr> calls_stop = False, throws = False \<rparr> | Some g \<Rightarrow> g v);
          w1 = w\<lparr> calls := calls w @ [c] \<rparr>
      in (throws eff, if calls_stop eff then stop w1 else w1))"

text \<open>The callback that \<^verbatim>\<open>_record\<close> gives to \<^verbatim>\<open>record\<close>, lines 293 to 314.\<close>

definition record_next :: "callbacks \<Rightarrow> jsval \<Rightarrow> world \<Rightarrow> world" where
  "record_next cbs recordId w =
     (if isFakeRecordId recordId
      then console_warn ''Ackee ignores you because this is your own site'' w
      else case call_back (onCreate cbs) (OnCreate recordId) recordId w of
        (threw, w1) \<Rightarrow>
          if threw then uncaught_error CallbackError w1
          else setInterval 15000 recordId w1)"

text \<open>The callback given to \<^verbatim>\<open>updateRecord\<close>, lines 308 to 310 and 351 to 353.\<close>

definition update_next :: "callbacks \<Rightarrow> jsval \<Rightarrow> world \<Rightarrow> world" where
  "update_next cbs recordId w =
     (case call_back (onUpdate cbs) (OnUpdate recordId) recordId w of
        (threw, w1) \<Rightarrow> if threw then uncaught_error CallbackError w1 else w1)"

definition run_next :: "callbacks \<Rightarrow> next_fn \<Rightarrow> jsval \<Rightarrow> world \<Rightarrow> world" where
  "run_next cbs nxt json w =
     (case nxt of
        CreateNext \<Rightarrow>
          (case created_id json of
             Inl e \<Rightarrow> uncaught_error e w
           | Inr recordId \<Rightarrow> record_next cbs recordId w)
      | UpdateNext recordId \<Rightarrow> update_next cbs recordId w)"

text \<open>The \<^verbatim>\<open>load\<close> event of request \<open>n\<close> with the status and the body of the
  response: \<^verbatim>\<open>xhr.onload\<close> as a whole.\<close>

definition xhr_load :: "host \<Rightarrow> callbacks \<Rightarrow> nat \<Rightarrow> nat \<Rightarrow> string \<Rightarrow> world \<Rightarrow> world" where
  "xhr_load h cbs n status responseText w =
     (let w1 = w\<lparr> loaded := insert n (loaded w) \<rparr> in
      case onload (JSON_parse h) status responseText of
        Inl e \<Rightarrow> uncaught_error e w1
      | Inr json \<Rightarrow> run_next cbs (xhr_next (xhrs w ! n)) json w1)"

text \<open>The function given to \<^verbatim>\<open>setInterval\<close>, lines 301 to 312 and 344 to 355;
  \<^verbatim>\<open>interval\<close> is the handle of the interval that runs it.\<close>

definition interval_callback :: "ackee_instance \<Rightarrow> timer \<Rightarrow> world \<Rightarrow> world" where
  "interval_callback i tm w =
     (if isStopped w then clearInterval (timer_id tm) w
      else updateRecord (i_server i) (timer_recordId tm) w)"

text \<open>
  The body of \<^verbatim>\<open>_record\<close> from line 279 to line 316 and the body of
  \<^verbatim>\<open>_updateRecord\<close> from line 325 to line 357: what a call does once the
  callbacks have been read, up to \<^verbatim>\<open>return { stop }\<close>, as the world it leaves
  behind. \<open>attrs\<close> is the attribute object after the default parameter has been
  resolved. The handle returned is the event \<open>Stop\<close> below. The calls as a whole,
  with the reads of the callbacks that come first, are \<open>record_call\<close> and
  \<open>updateRecord_call\<close> below.
\<close>

definition instance_record :: "host \<Rightarrow> ackee_instance \<Rightarrow> jsval \<Rightarrow> world" where
  "instance_record h i attrs =
     (if ignoreLocalhost (i_opts i) \<and> isLocalhost (location_hostname h)
      then console_warn ''Ackee ignores you because you are on localhost'' new_world
      else if isBot (navigator_userAgent h)
      then console_warn ''Ackee ignores you because you are a bot'' new_world
      else record' (i_server i) (i_domainId i) attrs new_world)"

definition instance_updateRecord :: "host \<Rightarrow> ackee_instance \<Rightarrow> jsval \<Rightarrow> world" where
  "instance_updateRecord h i recordId =
     (if ignoreLocalhost (i_opts i) \<and> isLocalhost (location_hostname h)
      then console_warn ''Ackee ignores you because you are on localhost'' new_world
      else if isBot (navigator_userAgent h)
      then console_warn ''Ackee ignores you because you are a bot'' new_world
      else if isFakeRecordId recordId
      then console_warn ''Ackee ignores you because this is your own site'' new_world
      else setInterval 15000 recordId new_world)"

text \<open>
  The argument \<^verbatim>\<open>callbacks\<close> as the page passes it: left out (or
  \<^verbatim>\<open>undefined\<close>), \<^verbatim>\<open>null\<close>, or an object whose properties \<^verbatim>\<open>onCreate\<close> and
  \<^verbatim>\<open>onUpdate\<close> are functions or missing (a number, a string or a boolean behaves as
  an object without the two properties).
\<close>

datatype callbacks_value = Callbacks_undefined | Callbacks_null | Callbacks_object callbacks

text \<open>
  The default parameter \<^verbatim>\<open>callbacks = {}\<close> (lines 274 and 321) and the reads
  \<^verbatim>\<open>callbacks.onCreate\<close> and \<^verbatim>\<open>callbacks.onUpdate\<close> (lines 276, 277 and 323).
  The default replaces \<^verbatim>\<open>undefined\<close> only, and a property read on \<^verbatim>\<open>null\<close>
  throws. (\<^verbatim>\<open>_updateRecord\<close> reads \<^verbatim>\<open>onUpdate\<close> only; its session never uses
  \<^verbatim>\<open>onCreate\<close>.)
\<close>

definition read_callbacks :: "callbacks_value \<Rightarrow> js_error + callbacks" where
  "read_callbacks callbacks =
     (case callbacks of
        Callbacks_undefined \<Rightarrow> Inr \<lparr> onCreate = None, onUpdate = None \<rparr>
      | Callbacks_null \<Rightarrow> Inl TypeError
      | Callbacks_object c \<Rightarrow> Inr c)"

text \<open>
  \<^verbatim>\<open>_record(attrs, callbacks)\<close>, lines 274 to 318, and
  \<^verbatim>\<open>_updateRecord(recordId, callbacks)\<close>, lines 321 to 359, as a whole: the
  callbacks are read first, before the checks of the hostname, of the user agent and
  of the record id. A call that throws writes no warning and returns no handle; a call
  that returns leaves a session, which is the callbacks it has read and its world.
\<close>

definition record_call ::
  "host \<Rightarrow> ackee_instance \<Rightarrow> jsval \<Rightarrow> callbacks_value \<Rightarrow> js_error + callbacks \<times> world" where
  "record_call h i attrs callbacks =
     (case read_callbacks callbacks of
        Inl e \<Rightarrow> Inl e
      | Inr cbs \<Rightarrow> Inr (cbs, instance_record h i attrs))"

definition updateRecord_call ::
  "host \<Rightarrow> ackee_instance \<Rightarrow> jsval \<Rightarrow> callbacks_value \<Rightarrow> js_error + callbacks \<times> world" where
  "updateRecord_call h i recordId callbacks =
     (case read_callbacks callbacks of
        Inl e \<Rightarrow> Inl e
      | Inr cbs \<Rightarrow> Inr (cbs, instance_updateRecord h i recordId))"

text \<open>
  What can happen to a session after its start, one event at a time on the single
  thread of the page: the page calls \<^verbatim>\<open>stop()\<close>; a period of interval \<open>t\<close> has
  elapsed and the browser runs its callback (nothing happens when no such interval is
  running); the response of request \<open>n\<close> has arrived and the browser delivers its
  \<^verbatim>\<open>load\<close> event (once per request, and only for a request that was sent).
\<close>

datatype event = Stop | Tick nat | Load nat nat string

fun step :: "host \<Rightarrow> ackee_instance \<Rightarrow> callbacks \<Rightarrow> world \<Rightarrow> event \<Rightarrow> world" where
  "step h i cbs w Stop = stop w"
| "step h i cbs w (Tick t) =
     (case find (\<lambda>tm. timer_id tm = t) (timers w) of
        None \<Rightarrow> w
      | Some tm \<Rightarrow> interval_callback i tm w)"
| "step h i cbs w (Load n status responseText) =
     (if n < length (xhrs w) \<and> n \<notin> loaded w
      then xhr_load h cbs n status responseText w else w)"

definition run :: "host \<Rightarrow> ackee_instance \<Rightarrow> callbacks \<Rightarrow> world \<Rightarrow> event list \<Rightarrow> world" where
  "run h i cbs w es = foldl (step h i cbs) w es"

text \<open>A refresh request is a request sent by \<^verbatim>\<open>updateRecord\<close>, a creation request
  one sent by \<^verbatim>\<open>record\<close>.\<close>

definition is_refresh :: "xhr \<Rightarrow> bool" where
  "is_refresh x = (case xhr_next x of UpdateNext _ \<Rightarrow> True | CreateNext \<Rightarrow> False)"

definition is_creation :: "xhr \<Rightarrow> bool" where
  "is_creation x = (xhr_next x = CreateNext)"

definition is_Tick :: "event \<Rightarrow> bool" where
  "is_Tick e = (case e of Tick _ \<Rightarrow> True | _ \<Rightarrow> False)"

definition is_OnCreate :: "call \<Rightarrow> bool" where
  "is_OnCreate c = (case c of OnCreate _ \<Rightarrow> True | _ \<Rightarrow> False)"

text \<open>The two checks that \<^verbatim>\<open>_record\<close> and \<^verbatim>\<open>_updateRecord\<close> make once
  the callbacks have been read (lines 283 to 291 and 329 to 337), as one condition.\<close>

definition ineligible :: "host \<Rightarrow> ackee_instance \<Rightarrow> bool" where
  "ineligible h i =
     (ignoreLocalhost (i_opts i) \<and> isLocalhost (location_hostname h) \<or>
      isBot (navigator_userAgent h))"

text \<open>The event that delivers the response of request \<open>n\<close>.\<close>

definition delivers :: "nat \<Rightarrow> event \<Rightarrow> bool" where
  "delivers n e = (case e of Load m _ _ \<Rightarrow> m = n | _ \<Rightarrow> False)"

text \<open>
  What holds in every state of a session: no more intervals are running than were
  started, at most one was started, a creation request can only be the first request,
  and as long as its response has not been delivered no interval has been started.
\<close>

definition session_inv :: "world \<Rightarrow> bool" where
  "session_inv w =
     (length (timers w) \<le> timer_count w \<and> timer_count w \<le> 1 \<and>
      (\<forall>n<length (xhrs w). is_creation (xhrs w ! n) \<longrightarrow>
          n = 0 \<and> (0 \<notin> loaded w \<longrightarrow> timer_count w = 0)))"

section \<open>A concrete page\<close>

text \<open>
  A host, an instance and four response bodies to run the definitions on. The parser
  knows these four bodies and rejects every other text.
\<close>

definition created_body :: string where
  \<open>created_body = ''{"data":{"createRecord":{"payload":{"id":"abc123"}}}}''\<close>

definition ignored_body :: string where
  \<open>ignored_body = ''{"data":{"createRecord":{"payload":{"id":"88888888-8888-8888-8888-888888888888"}}}}''\<close>

definition updated_body :: string where
  \<open>updated_body = ''{"data":{"updateRecord":{"success":true}}}''\<close>

definition failed_body :: string where
  \<open>failed_body = ''{"errors":[{"message":"Unknown domain"}]}''\<close>

definition created_json :: "string \<Rightarrow> jsval" where
  "created_json recordId =
     Obj [(''data'', Obj [(''createRecord'', Obj [(''payload'', Obj [(''id'', Str recordId)])])])]"

definition example_parse :: "string \<Rightarrow> jsval option" where
  "example_parse s =
     (if s = created_body then Some (created_json ''abc123'')
      else if s = ignored_body then Some (created_json fakeRecordId)
      else if s = updated_body
      then Some (Obj [(''data'', Obj [(''updateRecord'', Obj [(''success'', Bool True)])])])
      else if s = failed_body
      then Some (Obj [(''errors'', Arr [Obj [(''message'', Str ''Unknown domain'')]])])
      else None)"

definition example_host :: host where
  "example_host =
     \<lparr> location_hostname = ''t.example'',
       navigator_userAgent = ''Mozilla/5.0 (X11; Linux x86_64; rv:109.0) Gecko/20100101 Firefox/115.0'',
       JSON_parse = example_parse \<rparr>"

definition example_instance :: ackee_instance where
  "example_instance =
     \<lparr> i_server = ''https://t.example'', i_domainId = Str ''hd11f820'',
       i_opts = \<lparr> detailed = False, ignoreLocalhost = True \<rparr> \<rparr>"

definition no_callbacks :: callbacks where
  "no_callbacks = \<lparr> onCreate = None, onUpdate = None \<rparr>"

definition example_attrs :: jsval where
  "example_attrs = Obj [(''siteLocation'', Str ''https://t.example/''), (''siteReferrer'', Str [])]"

definition example_session :: world where
  "example_session = instance_record example_host example_instance example_attrs"

text \<open>The example session after its creation, after the first refresh was sent (and is
  not yet answered), and after \<^verbatim>\<open>stop()\<close> was then called; the two requests it
  sends.\<close>

definition example_created :: world where
  "example_created =
     run example_host example_instance no_callbacks example_session [Load 0 200 created_body]"

definition example_refreshing :: world where
  "example_refreshing =
     run example_host example_instance no_callbacks example_created [Tick 0]"

definition example_stopped :: world where
  "example_stopped =
     run example_host example_instance no_callbacks example_refreshing [Stop]"

definition example_creation_xhr :: xhr where
  "example_creation_xhr =
     \<lparr> xhr_method = ''POST'', xhr_url = ''https://t.example/api'',
       xhr_headers = [(''Content-Type'', ''application/json;charset=UTF-8'')],
       xhr_withCredentials = True,
       xhr_body = createRecordBody (Str ''hd11f820'') example_attrs,
       xhr_next = CreateNext \<rparr>"

definition example_refresh_xhr :: xhr where
  "example_refresh_xhr =
     \<lparr> xhr_method = ''POST'', xhr_url = ''https://t.example/api'',
       xhr_headers = [(''Content-Type'', ''application/json;charset=UTF-8'')],
       xhr_withCredentials = True,
       xhr_body = updateRecordBody (Str ''abc123''),
       xhr_next = UpdateNext (Str ''abc123'') \<rparr>"

text \<open>The same page opened on \<^verbatim>\<open>localhost\<close>.\<close>

definition example_localhost :: host where
  "example_localhost = example_host \<lparr> location_hostname := ''localhost'' \<rparr>"

section \<open>Options: results\<close>

lemma validate_omitted: "validate Undefined = Inr \<lparr> detailed = False, ignoreLocalhost = True \<rparr>"
  by (simp add: validate_def)

lemma validate_empty_object: "validate (Obj []) = Inr \<lparr> detailed = False, ignoreLocalhost = True \<rparr>"
  by (simp add: validate_def)

lemma validate_object:
  "validate (Obj kvs) =
     Inr \<lparr> detailed = (map_of kvs ''detailed'' = Some (Bool True)),
           ignoreLocalhost = (map_of kvs ''ignoreLocalhost'' \<noteq> Some (Bool False)) \<rparr>"
  by (simp add: validate_def split: option.splits)

lemma validate_not_null: "opts \<noteq> Null \<Longrightarrow> \<exists>c. validate opts = Inr c"
  by (cases opts) (simp_all add: validate_def split: option.splits)

lemma create_null_throws: "create srv did Null = Inl TypeError"
  by (simp add: create_def validate_def)

text \<open>
  Claim C9. For every options input, validation is to yield a configuration in which
  \<open>detailed\<close> defaults to false and \<open>ignoreLocalhost\<close> defaults to true. The options
  parameter is documented as a nullable object. Omitted options and the empty object
  get the two defaults. On the input \<^verbatim>\<open>null\<close> the default parameter is not
  applied, the read of \<^verbatim>\<open>opts.detailed\<close> throws a \<^verbatim>\<open>TypeError\<close>, and no
  configuration is produced.
\<close>

theorem validate_null_throws:
  "validate Null = Inl TypeError \<and>
   validate Undefined = Inr \<lparr> detailed = False, ignoreLocalhost = True \<rparr> \<and>
   validate (Obj []) = Inr \<lparr> detailed = False, ignoreLocalhost = True \<rparr>"
  by (simp add: validate_def)

section \<open>Eligibility predicates: results\<close>

text \<open>
  Claim C5. For every hostname string \<open>h\<close>, \<open>isLocalhost h\<close> is true if and only if
  \<open>h\<close> is the empty string, \<^verbatim>\<open>localhost\<close>, \<^verbatim>\<open>127.0.0.1\<close> or \<^verbatim>\<open>::1\<close>.
\<close>

theorem isLocalhost_iff:
  "isLocalhost h \<longleftrightarrow> h \<in> {'''', ''localhost'', ''127.0.0.1'', ''::1''}"
  by (simp add: isLocalhost_def)

text \<open>The canonical form as a table, for evaluation: the 26 lower case letters are
  mapped to their upper case, every other character to itself.\<close>

lemma lower_letters_codes: "map char_of [97..<123::nat] = lower_letters"
  by code_simp

lemma Canonicalize_letters: "map Canonicalize lower_letters = ''ABCDEFGHIJKLMNOPQRSTUVWXYZ''"
  by code_simp

lemma in_lower_letters: "c \<in> set lower_letters \<longleftrightarrow> 97 \<le> (of_char c :: nat) \<and> (of_char c :: nat) \<le> 122"
proof -
  have "set lower_letters = char_of ` {97..<123::nat}"
    by (simp only: lower_letters_codes [symmetric] set_map set_upt)
  then have "c \<in> set lower_letters \<longleftrightarrow> (\<exists>n\<in>{97..<123::nat}. c = char_of n)"
    by (simp only: image_iff)
  also have "\<dots> \<longleftrightarrow> (\<exists>n\<in>{97..<123::nat}. (of_char c :: nat) = n)"
  proof (rule bex_cong [OF refl])
    fix n :: nat assume "n \<in> {97..<123}"
    then have "n < 256" by simp
    then have "(of_char (char_of n) :: nat) = n" by simp
    then show "(c = char_of n) = ((of_char c :: nat) = n)" by (metis char_of_char)
  qed
  also have "\<dots> \<longleftrightarrow> 97 \<le> (of_char c :: nat) \<and> (of_char c :: nat) \<le> 122" by auto
  finally show ?thesis .
qed

lemma Canonicalize_table [code]:
  "Canonicalize c =
     (case map_of (zip ''abcdefghijklmnopqrstuvwxyz'' ''ABCDEFGHIJKLMNOPQRSTUVWXYZ'') c of
        None \<Rightarrow> c | Some u \<Rightarrow> u)"
proof -
  have "map_of (zip lower_letters (map Canonicalize lower_letters)) c =
      (if c \<in> set lower_letters then Some (Canonicalize c) else None)"
    by (simp add: map_of_zip_map)
  moreover have "Canonicalize c = c" if "c \<notin> set lower_letters"
    using that by (auto simp: in_lower_letters Canonicalize_def)
  ultimately show ?thesis
    unfolding Canonicalize_letters unfolding lower_letters_def by simp
qed

text \<open>The canonical form of the regular expression and lower case identify the same
  pairs of characters.\<close>

lemma of_char_Canonicalize:
  "(of_char (Canonicalize x) :: nat) =
     (if 97 \<le> (of_char x :: nat) \<and> (of_char x :: nat) \<le> 122 then of_char x - 32 else of_char x)"
proof -
  have "(of_char x :: nat) - 32 < 256"
    by (rule less_imp_diff_less) simp
  then have "((of_char x :: nat) - 32) mod 256 = of_char x - 32"
    by (rule mod_less)
  then show ?thesis by (simp add: Canonicalize_def Let_def)
qed

lemma of_char_ascii_lower:
  "(of_char (ascii_lower x) :: nat) =
     (if 65 \<le> (of_char x :: nat) \<and> (of_char x :: nat) \<le> 90 then of_char x + 32 else of_char x)"
  by (simp add: ascii_lower_def Let_def)

lemma fold_codes:
  fixes m n :: nat
  shows "(if 97 \<le> m \<and> m \<le> 122 then m - 32 else m) = (if 97 \<le> n \<and> n \<le> 122 then n - 32 else n)
     \<longleftrightarrow> (if 65 \<le> m \<and> m \<le> 90 then m + 32 else m) = (if 65 \<le> n \<and> n \<le> 90 then n + 32 else n)"
  by (simp split: if_splits) arith

lemma Canonicalize_eq_iff:
  "Canonicalize a = Canonicalize b \<longleftrightarrow> ascii_lower a = ascii_lower b"
proof -
  have "Canonicalize a = Canonicalize b
      \<longleftrightarrow> (of_char (Canonicalize a) :: nat) = of_char (Canonicalize b)"
    by simp
  also have "\<dots> \<longleftrightarrow> (of_char (ascii_lower a) :: nat) = of_char (ascii_lower b)"
    unfolding of_char_Canonicalize of_char_ascii_lower by (rule fold_codes)
  also have "\<dots> \<longleftrightarrow> ascii_lower a = ascii_lower b" by simp
  finally show ?thesis .
qed

lemma match_literal_prefix:
  "match_literal p s \<longleftrightarrow> prefix (map ascii_lower p) (map ascii_lower s)"
  by (induction p s rule: match_literal.induct) (simp_all add: Canonicalize_eq_iff)

lemma RegExp_test_sublist:
  "RegExp_test alts s \<longleftrightarrow> (\<exists>p\<in>set alts. sublist (map ascii_lower p) (map ascii_lower s))"
  by (induction s)
     (auto simp: match_here_def list_ex_iff match_literal_prefix sublist_Cons_right)

text \<open>
  Claim C6. For every user-agent string \<open>u\<close>, \<open>isBot u\<close> is true if \<open>u\<close> contains one
  of \<^verbatim>\<open>bot\<close>, \<^verbatim>\<open>crawler\<close>, \<^verbatim>\<open>spider\<close>, \<^verbatim>\<open>crawling\<close> when case is ignored, and
  false if it contains none of them; it is false for the user agent of a desktop
  browser.
\<close>

theorem isBot_iff_contains:
  "(isBot u \<longleftrightarrow>
      contains_ignoring_case u ''bot'' \<or> contains_ignoring_case u ''crawler'' \<or>
      contains_ignoring_case u ''spider'' \<or> contains_ignoring_case u ''crawling'') \<and>
   \<not> isBot ''Mozilla/5.0 (Windows NT 10.0; Win64; x64) AppleWebKit/537.36 (KHTML, like Gecko) Chrome/120.0.0.0 Safari/537.36''"
proof (rule conjI)
  show "isBot u \<longleftrightarrow>
      contains_ignoring_case u ''bot'' \<or> contains_ignoring_case u ''crawler'' \<or>
      contains_ignoring_case u ''spider'' \<or> contains_ignoring_case u ''crawling''"
    by (simp add: isBot_def bot_alternatives_def RegExp_test_sublist contains_ignoring_case_def)
  show "\<not> isBot ''Mozilla/5.0 (Windows NT 10.0; Win64; x64) AppleWebKit/537.36 (KHTML, like Gecko) Chrome/120.0.0.0 Safari/537.36''"
    by code_simp
qed

theorem isBot_iff_contains_witness:
  "contains_ignoring_case ''Mozilla/5.0 (compatible; GoogleBot/2.1)'' ''bot'' \<and>
   isBot ''Mozilla/5.0 (compatible; GoogleBot/2.1)''"
proof -
  have c: "contains_ignoring_case ''Mozilla/5.0 (compatible; GoogleBot/2.1)'' ''bot''"
    by code_simp
  with isBot_iff_contains [of "''Mozilla/5.0 (compatible; GoogleBot/2.1)''"]
  show ?thesis by blast
qed

section \<open>Endpoint: results\<close>

lemma substr_last: "substr s (- 1) = ''/'' \<longleftrightarrow> suffix ''/'' s"
proof (cases s rule: rev_cases)
  case Nil
  then show ?thesis by (simp add: substr_def)
next
  case (snoc xs x)
  then show ?thesis by (auto simp: substr_def)
qed

lemma endpoint_unfold: "endpoint s = (if suffix ''/'' s then s else s @ ''/'') @ ''api''"
  by (simp add: endpoint_def substr_last)

lemma endpoint_spec_agree:
  assumes a: "\<not> suffix ''//'' s"
  shows "endpoint s = endpoint_spec s"
proof (cases s rule: rev_cases)
  case Nil
  then show ?thesis
    by (simp add: endpoint_unfold endpoint_spec_def with_exactly_one_trailing_slash_def)
next
  case (snoc xs x)
  show ?thesis
  proof (cases "x = CHR ''/''")
    case True
    with a snoc have "xs = [] \<or> last xs \<noteq> CHR ''/''"
      by (cases xs rule: rev_cases) (auto simp: suffix_def)
    then have "dropWhile (\<lambda>c. c = CHR ''/'') (rev xs) = rev xs"
      by (cases xs rule: rev_cases) auto
    with True snoc show ?thesis
      by (simp add: endpoint_unfold endpoint_spec_def with_exactly_one_trailing_slash_def)
  next
    case False
    with snoc show ?thesis
      by (simp add: endpoint_unfold endpoint_spec_def with_exactly_one_trailing_slash_def)
  qed
qed

text \<open>
  Claim C7, as stated: for every server base URL \<open>s\<close>, \<open>endpoint s\<close> is the base URL
  with exactly one trailing slash, followed by \<^verbatim>\<open>api\<close>. This fails for a base URL
  that ends with two slashes: only the last character is looked at, both slashes are
  kept, and two slashes precede \<^verbatim>\<open>api\<close>.
\<close>

theorem endpoint_two_slashes_counterexample:
  "endpoint ''https://t.example//'' = ''https://t.example//api'' \<and>
   endpoint_spec ''https://t.example//'' = ''https://t.example/api''"
  by (simp add: endpoint_def substr_def endpoint_spec_def with_exactly_one_trailing_slash_def)

text \<open>
  Claim C7, amended: for every server base URL \<open>s\<close>, \<open>endpoint s\<close> is \<open>s\<close> followed by
  \<^verbatim>\<open>api\<close> when \<open>s\<close> ends with a slash, and \<open>s\<close> followed by \<^verbatim>\<open>/api\<close> otherwise.
  When \<open>s\<close> does not end with two slashes, this is the base URL with exactly one
  trailing slash, followed by \<^verbatim>\<open>api\<close>. In particular \<^verbatim>\<open>https://t.example/\<close> and
  \<^verbatim>\<open>https://t.example\<close> both yield \<^verbatim>\<open>https://t.example/api\<close>.
\<close>

theorem endpoint_one_slash:
  "endpoint s = (if suffix ''/'' s then s @ ''api'' else s @ ''/api'') \<and>
   (\<not> suffix ''//'' s \<longrightarrow> endpoint s = endpoint_spec s) \<and>
   endpoint ''https://t.example/'' = ''https://t.example/api'' \<and>
   endpoint ''https://t.example'' = ''https://t.example/api''"
proof (intro conjI impI)
  show "endpoint s = (if suffix ''/'' s then s @ ''api'' else s @ ''/api'')"
    by (simp add: endpoint_unfold)
  show "endpoint s = endpoint_spec s" if "\<not> suffix ''//'' s"
    using that by (rule endpoint_spec_agree)
  show "endpoint ''https://t.example/'' = ''https://t.example/api''"
    by (simp add: endpoint_def substr_def)
  show "endpoint ''https://t.example'' = ''https://t.example/api''"
    by (simp add: endpoint_def substr_def)
qed

theorem endpoint_one_slash_witness:
  "\<not> suffix ''//'' ''https://t.example/'' \<and>
   endpoint ''https://t.example/'' = endpoint_spec ''https://t.example/'' \<and>
   endpoint ''https://t.example/'' = ''https://t.example/'' @ ''api''"
proof -
  note t = endpoint_one_slash [of "''https://t.example/''"]
  have h: "\<not> suffix ''//'' ''https://t.example/''"
    by (simp add: suffix_def)
  have s: "suffix ''/'' ''https://t.example/''"
    by (simp add: suffix_def)
  from t have "\<not> suffix ''//'' ''https://t.example/''
      \<longrightarrow> endpoint ''https://t.example/'' = endpoint_spec ''https://t.example/''"
    by (rule conjunct1 [OF conjunct2])
  with h have a: "endpoint ''https://t.example/'' = endpoint_spec ''https://t.example/''"
    by (rule rev_mp)
  from t have "endpoint ''https://t.example/'' =
      (if suffix ''/'' ''https://t.example/'' then ''https://t.example/'' @ ''api''
       else ''https://t.example/'' @ ''/api'')"
    by (rule conjunct1)
  with s have b: "endpoint ''https://t.example/'' = ''https://t.example/'' @ ''api''"
    by (simp only: if_True)
  from h a b show ?thesis by (intro conjI)
qed

section \<open>Sessions: what one event can change\<close>

lemmas prim_defs = stop_def console_warn_def uncaught_error_def setInterval_def
  clearInterval_def send_def

lemma call_back_effect:
  assumes "call_back f c v w = (t, w1)"
  shows "xhrs w1 = xhrs w" "timers w1 = timers w" "timer_count w1 = timer_count w"
    "console w1 = console w" "uncaught w1 = uncaught w" "loaded w1 = loaded w"
    "calls w1 = calls w @ [c]" "isStopped w \<Longrightarrow> isStopped w1"
  using assms by (auto simp: call_back_def Let_def stop_def split: if_splits)

lemma record_next_xhrs: "xhrs (record_next cbs rid w) = xhrs w"
  by (auto simp: record_next_def prim_defs dest: call_back_effect split: prod.splits)

lemma record_next_loaded: "loaded (record_next cbs rid w) = loaded w"
  by (auto simp: record_next_def prim_defs dest: call_back_effect split: prod.splits)

lemma record_next_stopped: "isStopped w \<Longrightarrow> isStopped (record_next cbs rid w)"
  by (auto simp: record_next_def prim_defs dest: call_back_effect split: prod.splits)

lemma record_next_timers:
  "timer_count w = 0 \<Longrightarrow> timers w = [] \<Longrightarrow>
   timer_count (record_next cbs rid w) \<le> 1 \<and>
   length (timers (record_next cbs rid w)) \<le> timer_count (record_next cbs rid w)"
  by (auto simp: record_next_def prim_defs dest: call_back_effect split: prod.splits)

lemma record_next_fake:
  "record_next cbs (Str fakeRecordId) w =
     w\<lparr> console := console w @ [''Ackee ignores you because this is your own site''] \<rparr>"
  by (simp add: record_next_def isFakeRecordId_def console_warn_def)

lemma update_next_effect:
  "xhrs (update_next cbs rid w) = xhrs w"
  "timers (update_next cbs rid w) = timers w"
  "timer_count (update_next cbs rid w) = timer_count w"
  "console (update_next cbs rid w) = console w"
  "loaded (update_next cbs rid w) = loaded w"
  "calls (update_next cbs rid w) = calls w @ [OnUpdate rid]"
  "isStopped w \<Longrightarrow> isStopped (update_next cbs rid w)"
  by (auto simp: update_next_def prim_defs dest: call_back_effect split: prod.splits)

lemma run_next_xhrs: "xhrs (run_next cbs nxt json w) = xhrs w"
  by (simp add: run_next_def record_next_xhrs update_next_effect uncaught_error_def
      split: next_fn.splits sum.splits)

lemma run_next_loaded: "loaded (run_next cbs nxt json w) = loaded w"
  by (simp add: run_next_def record_next_loaded update_next_effect uncaught_error_def
      split: next_fn.splits sum.splits)

lemma run_next_stopped: "isStopped w \<Longrightarrow> isStopped (run_next cbs nxt json w)"
  by (simp add: run_next_def record_next_stopped update_next_effect uncaught_error_def
      split: next_fn.splits sum.splits)

lemma xhr_load_xhrs: "xhrs (xhr_load h cbs n status responseText w) = xhrs w"
  by (simp add: xhr_load_def Let_def run_next_xhrs uncaught_error_def split: sum.splits)

lemma xhr_load_loaded: "loaded (xhr_load h cbs n status responseText w) = insert n (loaded w)"
  by (simp add: xhr_load_def Let_def run_next_loaded uncaught_error_def split: sum.splits)

lemma xhr_load_stopped: "isStopped w \<Longrightarrow> isStopped (xhr_load h cbs n status responseText w)"
  by (simp add: xhr_load_def Let_def run_next_stopped uncaught_error_def split: sum.splits)

lemma xhr_load_refresh:
  assumes "xhr_next (xhrs w ! n) = UpdateNext rid"
  shows "timers (xhr_load h cbs n status responseText w) = timers w"
    "timer_count (xhr_load h cbs n status responseText w) = timer_count w"
  using assms
  by (simp_all add: xhr_load_def Let_def run_next_def update_next_effect uncaught_error_def
      split: sum.splits)

lemma xhr_load_creation:
  assumes "xhr_next (xhrs w ! n) = CreateNext" "timer_count w = 0" "timers w = []"
  shows "timer_count (xhr_load h cbs n status responseText w) \<le> 1 \<and>
    length (timers (xhr_load h cbs n status responseText w)) \<le> timer_count (xhr_load h cbs n status responseText w)"
proof (cases "onload (JSON_parse h) status responseText")
  case (Inl e)
  with assms show ?thesis by (simp add: xhr_load_def uncaught_error_def)
next
  case (Inr json)
  show ?thesis
  proof (cases "created_id json")
    case (Inl e)
    with Inr assms show ?thesis by (simp add: xhr_load_def run_next_def uncaught_error_def)
  next
    case (Inr rid)
    with \<open>onload (JSON_parse h) status responseText = Inr json\<close> assms
    show ?thesis
      using record_next_timers [of "w\<lparr>loaded := insert n (loaded w)\<rparr>" cbs rid]
      by (simp add: xhr_load_def run_next_def)
  qed
qed

lemma step_xhrs_no_tick: "\<not> is_Tick e \<Longrightarrow> xhrs (step h i cbs w e) = xhrs w"
  by (cases e) (simp_all add: is_Tick_def stop_def xhr_load_xhrs)

lemma step_stopped: "isStopped w \<Longrightarrow> isStopped (step h i cbs w e)"
  by (cases e)
     (simp_all add: stop_def xhr_load_stopped interval_callback_def clearInterval_def
       split: option.splits)

lemma step_stopped_xhrs: "isStopped w \<Longrightarrow> xhrs (step h i cbs w e) = xhrs w"
  by (cases e)
     (simp_all add: stop_def xhr_load_xhrs interval_callback_def clearInterval_def
       split: option.splits)

lemma run_Nil: "run h i cbs w [] = w"
  by (simp add: run_def)

lemma run_Cons: "run h i cbs w (e # es) = run h i cbs (step h i cbs w e) es"
  by (simp add: run_def)

lemma run_append: "run h i cbs w (es @ es') = run h i cbs (run h i cbs w es) es'"
  by (simp add: run_def)

lemma run_stopped:
  "isStopped w \<Longrightarrow> isStopped (run h i cbs w es) \<and> xhrs (run h i cbs w es) = xhrs w"
  by (induction es arbitrary: w) (simp_all add: run_Nil run_Cons step_stopped step_stopped_xhrs)

lemma run_xhrs_no_tick:
  "list_all (\<lambda>e. \<not> is_Tick e) es \<Longrightarrow> xhrs (run h i cbs w es) = xhrs w"
  by (induction es arbitrary: w) (simp_all add: run_Nil run_Cons step_xhrs_no_tick)

lemma instance_record_no_refresh:
  "list_all (\<lambda>x. \<not> is_refresh x) (xhrs (instance_record h i attrs))"
  by (simp add: instance_record_def record'_def prim_defs new_world_def is_refresh_def)

lemma stop_before_tick_no_refresh:
  assumes "list_all (\<lambda>e. \<not> is_Tick e) es1"
  shows "xhrs (run h i cbs (instance_record h i attrs) (es1 @ Stop # es2)) =
    xhrs (instance_record h i attrs)"
proof -
  let ?w1 = "run h i cbs (instance_record h i attrs) es1"
  have "xhrs ?w1 = xhrs (instance_record h i attrs)"
    using assms by (rule run_xhrs_no_tick)
  moreover have "xhrs (run h i cbs (stop ?w1) es2) = xhrs (stop ?w1)"
    using run_stopped [of "stop ?w1"] by (simp add: stop_def)
  ultimately show ?thesis
    by (simp add: run_append run_Cons stop_def)
qed

text \<open>Every interval of a session has the period of 15000 milliseconds.\<close>

lemma record_next_delay:
  "list_all (\<lambda>tm. timer_delay tm = 15000) (timers w) \<Longrightarrow>
   list_all (\<lambda>tm. timer_delay tm = 15000) (timers (record_next cbs rid w))"
  by (auto simp: record_next_def prim_defs dest: call_back_effect split: prod.splits)

lemma xhr_load_delay:
  assumes "list_all (\<lambda>tm. timer_delay tm = 15000) (timers w)"
  shows "list_all (\<lambda>tm. timer_delay tm = 15000) (timers (xhr_load h cbs n status responseText w))"
proof (cases "onload (JSON_parse h) status responseText")
  case (Inl e)
  with assms show ?thesis by (simp add: xhr_load_def uncaught_error_def)
next
  case (Inr json)
  with assms show ?thesis
    by (simp add: xhr_load_def Let_def run_next_def update_next_effect uncaught_error_def
        record_next_delay split: next_fn.splits sum.splits)
qed

lemma step_delay:
  assumes "list_all (\<lambda>tm. timer_delay tm = 15000) (timers w)"
  shows "list_all (\<lambda>tm. timer_delay tm = 15000) (timers (step h i cbs w e))"
proof (cases e)
  case Stop
  with assms show ?thesis by (simp add: stop_def)
next
  case (Tick t)
  with assms show ?thesis
    by (simp add: interval_callback_def clearInterval_def updateRecord_def send_def
        list_all_iff split: option.splits)
next
  case (Load n status body)
  with assms show ?thesis by (simp add: xhr_load_delay)
qed

lemma run_delay:
  "list_all (\<lambda>tm. timer_delay tm = 15000) (timers w) \<Longrightarrow>
   list_all (\<lambda>tm. timer_delay tm = 15000) (timers (run h i cbs w es))"
  by (induction es arbitrary: w) (simp_all add: run_Nil run_Cons step_delay)

lemma start_delay:
  "list_all (\<lambda>tm. timer_delay tm = 15000) (timers (instance_record h i attrs))"
  "list_all (\<lambda>tm. timer_delay tm = 15000) (timers (instance_updateRecord h i rid))"
  by (simp_all add: instance_record_def instance_updateRecord_def console_warn_def record'_def
      send_def setInterval_def new_world_def)

section \<open>The example session, evaluated\<close>

lemma example_host_eligible:
  "\<not> isBot (navigator_userAgent example_host)"
  "\<not> isLocalhost (location_hostname example_host)"
  by code_simp+

lemma example_endpoint: "endpoint (i_server example_instance) = ''https://t.example/api''"
  by (simp add: example_instance_def endpoint_def substr_def)

lemma example_session_value:
  "example_session =
     \<lparr> console = [], xhrs = [example_creation_xhr], loaded = {}, timers = [], timer_count = 0,
       uncaught = [], calls = [], isStopped = False \<rparr>"
  using example_host_eligible example_endpoint
  by (simp add: example_session_def instance_record_def record'_def send_def new_world_def
      example_creation_xhr_def) (simp add: example_instance_def)

lemma example_responses:
  "onload (JSON_parse example_host) 200 created_body = Inr (created_json ''abc123'')"
  "onload (JSON_parse example_host) 200 ignored_body = Inr (created_json fakeRecordId)"
  "onload (JSON_parse example_host) 200 updated_body =
     Inr (Obj [(''data'', Obj [(''updateRecord'', Obj [(''success'', Bool True)])])])"
  "created_id (created_json rid) = Inr (Str rid)"
  by (simp_all add: onload_def example_host_def example_parse_def created_json_def
      created_id_def not_nullish_def created_body_def ignored_body_def updated_body_def)

lemma abc123_not_fake: "\<not> isFakeRecordId (Str ''abc123'')"
  by (simp add: isFakeRecordId_def fakeRecordId_def)

lemma example_created_value:
  "example_created =
     \<lparr> console = [], xhrs = [example_creation_xhr], loaded = {0},
       timers = [\<lparr> timer_id = 0, timer_delay = 15000, timer_recordId = Str ''abc123'' \<rparr>],
       timer_count = 1, uncaught = [], calls = [OnCreate (Str ''abc123'')], isStopped = False \<rparr>"
  by (simp add: example_created_def run_def example_session_value xhr_load_def example_responses
      run_next_def record_next_def abc123_not_fake call_back_def no_callbacks_def setInterval_def
      example_creation_xhr_def)

lemma example_refreshing_value:
  "example_refreshing =
     \<lparr> console = [], xhrs = [example_creation_xhr, example_refresh_xhr], loaded = {0},
       timers = [\<lparr> timer_id = 0, timer_delay = 15000, timer_recordId = Str ''abc123'' \<rparr>],
       timer_count = 1, uncaught = [], calls = [OnCreate (Str ''abc123'')], isStopped = False \<rparr>"
  by (simp add: example_refreshing_def run_def example_created_value interval_callback_def
      updateRecord_def send_def example_endpoint example_refresh_xhr_def)

lemma example_stopped_value:
  "example_stopped =
     \<lparr> console = [], xhrs = [example_creation_xhr, example_refresh_xhr], loaded = {0},
       timers = [\<lparr> timer_id = 0, timer_delay = 15000, timer_recordId = Str ''abc123'' \<rparr>],
       timer_count = 1, uncaught = [], calls = [OnCreate (Str ''abc123'')], isStopped = True \<rparr>"
  by (simp add: example_stopped_def run_def example_refreshing_value stop_def)

lemma example_stopped_run:
  "run example_host example_instance no_callbacks example_session
     [Load 0 200 created_body, Tick 0, Stop] = example_stopped"
  by (simp add: example_stopped_def example_refreshing_def example_created_def run_def)

section \<open>Sessions: stopping\<close>

text \<open>
  Claim C1. For a session started by \<^verbatim>\<open>_record\<close>: when \<^verbatim>\<open>stop()\<close> is called
  before the callback of the interval has run for the first time (so also when it is
  called before the first period has elapsed), no refresh request is sent, whatever
  happens afterwards. The period of every interval of the session is 15000
  milliseconds. \<^verbatim>\<open>stop()\<close> can be called in every state and
  calling it again changes nothing. From a stopped state on no request is sent at all.
  The response of a refresh that was already sent may still arrive; its delivery sends
  no request and starts no interval.
\<close>

theorem stop_prevents_refresh:
  "(list_all (\<lambda>e. \<not> is_Tick e) es1 \<longrightarrow>
      list_all (\<lambda>x. \<not> is_refresh x)
        (xhrs (run h i cbs (instance_record h i attrs) (es1 @ Stop # es2)))) \<and>
   list_all (\<lambda>tm. timer_delay tm = 15000)
     (timers (run h i cbs (instance_record h i attrs) es)) \<and>
   step h i cbs w Stop = stop w \<and> isStopped (stop w) \<and> stop (stop w) = stop w \<and>
   (isStopped w \<longrightarrow> isStopped (run h i cbs w es) \<and> xhrs (run h i cbs w es) = xhrs w) \<and>
   (n < length (xhrs w) \<and> n \<notin> loaded w \<and> is_refresh (xhrs w ! n) \<longrightarrow>
      xhrs (step h i cbs w (Load n status responseText)) = xhrs w \<and>
      timers (step h i cbs w (Load n status responseText)) = timers w \<and>
      timer_count (step h i cbs w (Load n status responseText)) = timer_count w)"
proof (intro conjI impI)
  show "list_all (\<lambda>x. \<not> is_refresh x)
      (xhrs (run h i cbs (instance_record h i attrs) (es1 @ Stop # es2)))"
    if "list_all (\<lambda>e. \<not> is_Tick e) es1"
    using that by (simp add: stop_before_tick_no_refresh instance_record_no_refresh)
  show "list_all (\<lambda>tm. timer_delay tm = 15000)
      (timers (run h i cbs (instance_record h i attrs) es))"
    by (intro run_delay start_delay)
  show "step h i cbs w Stop = stop w" by simp
  show "isStopped (stop w)" by (simp add: stop_def)
  show "stop (stop w) = stop w" by (simp add: stop_def)
  show "isStopped (run h i cbs w es)" if "isStopped w"
    using that by (simp add: run_stopped)
  show "xhrs (run h i cbs w es) = xhrs w" if "isStopped w"
    using that by (simp add: run_stopped)
next
  assume a: "n < length (xhrs w) \<and> n \<notin> loaded w \<and> is_refresh (xhrs w ! n)"
  then obtain rid where r: "xhr_next (xhrs w ! n) = UpdateNext rid"
    by (auto simp: is_refresh_def split: next_fn.splits)
  from a show "xhrs (step h i cbs w (Load n status responseText)) = xhrs w"
    by (simp add: xhr_load_xhrs)
  from a r show "timers (step h i cbs w (Load n status responseText)) = timers w"
    by (simp add: xhr_load_refresh)
  from a r show "timer_count (step h i cbs w (Load n status responseText)) = timer_count w"
    by (simp add: xhr_load_refresh)
qed

theorem stop_prevents_refresh_witness:
  "list_all (\<lambda>e. \<not> is_Tick e) [Load 0 200 created_body] \<and>
   list_all (\<lambda>x. \<not> is_refresh x)
     (xhrs (run example_host example_instance no_callbacks
        (instance_record example_host example_instance example_attrs)
        ([Load 0 200 created_body] @ Stop # [Tick 0, Tick 0]))) \<and>
   isStopped example_stopped \<and>
   xhrs (run example_host example_instance no_callbacks example_stopped
      [Tick 0, Load 1 200 updated_body, Tick 0]) = xhrs example_stopped \<and>
   1 < length (xhrs example_stopped) \<and>
   1 \<notin> loaded example_stopped \<and>
   is_refresh (xhrs example_stopped ! 1) \<and>
   timers (step example_host example_instance no_callbacks example_stopped
      (Load 1 200 updated_body)) = timers example_stopped"
proof -
  note t = stop_prevents_refresh [where ?es1.0 = "[Load 0 200 created_body]"
      and h = example_host and i = example_instance and cbs = no_callbacks
      and attrs = example_attrs and ?es2.0 = "[Tick 0, Tick 0]" and w = example_stopped
      and es = "[Tick 0, Load 1 200 updated_body, Tick 0]" and n = 1 and status = 200
      and responseText = updated_body]
  have h1: "list_all (\<lambda>e. \<not> is_Tick e) [Load 0 200 created_body]"
    by (simp add: is_Tick_def)
  have h2: "isStopped example_stopped"
    by (simp add: example_stopped_value)
  have h3: "1 < length (xhrs example_stopped)"
    by (simp add: example_stopped_value)
  have h4: "1 \<notin> loaded example_stopped"
    by (simp add: example_stopped_value)
  have h5: "is_refresh (xhrs example_stopped ! 1)"
    by (simp add: example_stopped_value is_refresh_def example_refresh_xhr_def)
  from t h1 h2 h3 h4 h5 show ?thesis
    by blast
qed

section \<open>Sessions that never start a timer\<close>

text \<open>With no interval running and no event that delivers a response still awaited, an
  event changes nothing but the variable \<^verbatim>\<open>isStopped\<close>.\<close>

lemma step_idle:
  assumes "timers w = []"
    and "\<not> (\<exists>n. delivers n e \<and> n < length (xhrs w) \<and> n \<notin> loaded w)"
  shows "\<exists>b. step h i cbs w e = w\<lparr> isStopped := b \<rparr>"
proof (cases e)
  case Stop
  then show ?thesis by (auto simp: stop_def)
next
  case (Tick t)
  with assms have r: "step h i cbs w e = w\<lparr> isStopped := isStopped w \<rparr>" by simp
  show ?thesis by (rule exI) (rule r)
next
  case (Load n status body)
  with assms have "\<not> (n < length (xhrs w) \<and> n \<notin> loaded w)"
    by (auto simp: delivers_def)
  with Load have r: "step h i cbs w e = w\<lparr> isStopped := isStopped w \<rparr>" by auto
  show ?thesis by (rule exI) (rule r)
qed

lemma run_idle:
  assumes "timers w = []" and "\<forall>n<length (xhrs w). n \<in> loaded w"
  shows "\<exists>b. run h i cbs w es = w\<lparr> isStopped := b \<rparr>"
  using assms
proof (induction es arbitrary: w)
  case Nil
  have r: "run h i cbs w [] = w\<lparr> isStopped := isStopped w \<rparr>" by (simp add: run_Nil)
  show ?case by (rule exI) (rule r)
next
  case (Cons e es)
  from Cons.prems have "\<exists>b. step h i cbs w e = w\<lparr> isStopped := b \<rparr>"
    by (intro step_idle) auto
  then obtain b where s: "step h i cbs w e = w\<lparr> isStopped := b \<rparr>" ..
  from Cons.prems
  have "\<exists>c. run h i cbs (w\<lparr> isStopped := b \<rparr>) es = w\<lparr> isStopped := b \<rparr>\<lparr> isStopped := c \<rparr>"
    by (intro Cons.IH) simp_all
  then obtain c
    where "run h i cbs (w\<lparr> isStopped := b \<rparr>) es = w\<lparr> isStopped := b \<rparr>\<lparr> isStopped := c \<rparr>" ..
  with s have r: "run h i cbs w (e # es) = w\<lparr> isStopped := c \<rparr>"
    by (simp add: run_Cons)
  show ?case by (rule exI) (rule r)
qed

lemma run_waiting:
  assumes "timers w = []" and "length (xhrs w) \<le> 1"
    and "list_all (\<lambda>e. \<not> delivers 0 e) es"
  shows "\<exists>b. run h i cbs w es = w\<lparr> isStopped := b \<rparr>"
  using assms
proof (induction es arbitrary: w)
  case Nil
  have r: "run h i cbs w [] = w\<lparr> isStopped := isStopped w \<rparr>" by (simp add: run_Nil)
  show ?case by (rule exI) (rule r)
next
  case (Cons e es)
  from Cons.prems have "\<not> (\<exists>n. delivers n e \<and> n < length (xhrs w) \<and> n \<notin> loaded w)"
    by (auto simp: delivers_def split: event.splits)
  with Cons.prems have "\<exists>b. step h i cbs w e = w\<lparr> isStopped := b \<rparr>"
    by (intro step_idle) auto
  then obtain b where s: "step h i cbs w e = w\<lparr> isStopped := b \<rparr>" ..
  from Cons.prems
  have "\<exists>c. run h i cbs (w\<lparr> isStopped := b \<rparr>) es = w\<lparr> isStopped := b \<rparr>\<lparr> isStopped := c \<rparr>"
    by (intro Cons.IH) simp_all
  then obtain c
    where "run h i cbs (w\<lparr> isStopped := b \<rparr>) es = w\<lparr> isStopped := b \<rparr>\<lparr> isStopped := c \<rparr>" ..
  with s have r: "run h i cbs w (e # es) = w\<lparr> isStopped := c \<rparr>"
    by (simp add: run_Cons)
  show ?case by (rule exI) (rule r)
qed

lemma ineligible_start:
  assumes "ineligible h i"
    and "w0 = instance_record h i attrs \<or> w0 = instance_updateRecord h i rid"
  shows "console w0 = [''Ackee ignores you because you are on localhost''] \<or>
      console w0 = [''Ackee ignores you because you are a bot'']"
    and "xhrs w0 = []" and "timers w0 = []" and "timer_count w0 = 0"
    and "uncaught w0 = []" and "calls w0 = []" and "\<not> isStopped w0"
proof -
  from assms(1) have "w0 = console_warn ''Ackee ignores you because you are on localhost'' new_world
      \<or> w0 = console_warn ''Ackee ignores you because you are a bot'' new_world"
    using assms(2)
    by (auto simp: ineligible_def instance_record_def instance_updateRecord_def split: if_splits)
  then show "console w0 = [''Ackee ignores you because you are on localhost''] \<or>
      console w0 = [''Ackee ignores you because you are a bot'']"
    and "xhrs w0 = []" and "timers w0 = []" and "timer_count w0 = 0"
    and "uncaught w0 = []" and "calls w0 = []" and "\<not> isStopped w0"
    by (auto simp: console_warn_def new_world_def)
qed

lemma fake_start:
  assumes "isFakeRecordId rid"
  shows "xhrs (instance_updateRecord h i rid) = []"
    and "timers (instance_updateRecord h i rid) = []"
    and "timer_count (instance_updateRecord h i rid) = 0"
  using assms by (simp_all add: instance_updateRecord_def console_warn_def new_world_def)

lemma eligible_record_start:
  assumes "\<not> ineligible h i"
  shows "instance_record h i attrs =
    new_world\<lparr> xhrs :=
      [\<lparr> xhr_method = ''POST'', xhr_url = endpoint (i_server i),
         xhr_headers = [(''Content-Type'', ''application/json;charset=UTF-8'')],
         xhr_withCredentials = True, xhr_body = createRecordBody (i_domainId i) attrs,
         xhr_next = CreateNext \<rparr>] \<rparr>"
  using assms
  by (auto simp: ineligible_def instance_record_def record'_def send_def new_world_def)

text \<open>The world of an eligible session whose creation response carries the reserved id,
  after any events before the response and any events after it.\<close>

lemma fake_creation_run:
  assumes el: "\<not> ineligible h i"
    and es1: "list_all (\<lambda>e. \<not> delivers 0 e) es1"
    and ok: "onload (JSON_parse h) status responseText = Inr json"
    and fake: "created_id json = Inr (Str fakeRecordId)"
  shows "\<exists>b. run h i cbs (instance_record h i attrs) (es1 @ Load 0 status responseText # es2) =
    (instance_record h i attrs)
      \<lparr> console := [''Ackee ignores you because this is your own site''],
        loaded := {0}, isStopped := b \<rparr>"
proof -
  let ?w0 = "instance_record h i attrs"
  let ?warned = "?w0\<lparr> console := [''Ackee ignores you because this is your own site''],
      loaded := {0} \<rparr>"
  note w0 = eligible_record_start [OF el, of attrs]
  have f0: "timers ?w0 = []" "length (xhrs ?w0) = 1" "loaded ?w0 = {}" "console ?w0 = []"
    "xhr_next (xhrs ?w0 ! 0) = CreateNext"
    by (simp_all add: w0 new_world_def)
  from f0 es1 have "\<exists>b. run h i cbs ?w0 es1 = ?w0\<lparr> isStopped := b \<rparr>"
    by (intro run_waiting) simp_all
  then obtain b1 where w1: "run h i cbs ?w0 es1 = ?w0\<lparr> isStopped := b1 \<rparr>" ..
  have w2: "step h i cbs (?w0\<lparr> isStopped := b1 \<rparr>) (Load 0 status responseText) =
      ?warned\<lparr> isStopped := b1 \<rparr>"
    using f0 ok fake
    by (simp add: xhr_load_def run_next_def record_next_fake)
  have "timers (?warned\<lparr> isStopped := b1 \<rparr>) = []"
    "\<forall>n<length (xhrs (?warned\<lparr> isStopped := b1 \<rparr>)). n \<in> loaded (?warned\<lparr> isStopped := b1 \<rparr>)"
    using f0 by simp_all
  then have "\<exists>b. run h i cbs (?warned\<lparr> isStopped := b1 \<rparr>) es2 =
      ?warned\<lparr> isStopped := b1 \<rparr>\<lparr> isStopped := b \<rparr>"
    by (rule run_idle)
  then obtain b2 where w3: "run h i cbs (?warned\<lparr> isStopped := b1 \<rparr>) es2 =
      ?warned\<lparr> isStopped := b1 \<rparr>\<lparr> isStopped := b2 \<rparr>" ..
  have "run h i cbs ?w0 (es1 @ Load 0 status responseText # es2) =
      run h i cbs (run h i cbs ?w0 es1) (Load 0 status responseText # es2)"
    by (rule run_append)
  also have "\<dots> = run h i cbs (?w0\<lparr> isStopped := b1 \<rparr>) (Load 0 status responseText # es2)"
    by (simp only: w1)
  also have "\<dots> =
      run h i cbs (step h i cbs (?w0\<lparr> isStopped := b1 \<rparr>) (Load 0 status responseText)) es2"
    by (rule run_Cons)
  also have "\<dots> = run h i cbs (?warned\<lparr> isStopped := b1 \<rparr>) es2"
    by (simp only: w2)
  also have "\<dots> = ?warned\<lparr> isStopped := b1 \<rparr>\<lparr> isStopped := b2 \<rparr>"
    by (rule w3)
  also have "\<dots> = ?warned\<lparr> isStopped := b2 \<rparr>"
    by simp
  finally have r: "run h i cbs ?w0 (es1 @ Load 0 status responseText # es2) =
      ?warned\<lparr> isStopped := b2 \<rparr>" .
  show ?thesis by (rule exI) (rule r)
qed

section \<open>Sessions: ineligible visits\<close>

text \<open>Every session comes from a call that has read its callbacks, and only the
  argument \<^verbatim>\<open>null\<close> makes the call throw.\<close>

lemma record_call_returns:
  "record_call h i attrs cv = Inr (cbs, w) \<longleftrightarrow>
     cv \<noteq> Callbacks_null \<and> read_callbacks cv = Inr cbs \<and> w = instance_record h i attrs"
  by (cases cv) (auto simp: record_call_def read_callbacks_def)

lemma updateRecord_call_returns:
  "updateRecord_call h i rid cv = Inr (cbs, w) \<longleftrightarrow>
     cv \<noteq> Callbacks_null \<and> read_callbacks cv = Inr cbs \<and> w = instance_updateRecord h i rid"
  by (cases cv) (auto simp: updateRecord_call_def read_callbacks_def)

lemma read_callbacks_not_null: "cv \<noteq> Callbacks_null \<Longrightarrow> \<exists>cbs. read_callbacks cv = Inr cbs"
  by (cases cv) (simp_all add: read_callbacks_def)

text \<open>
  An ineligible visit whose call returns: one warning is written, no request is sent and
  no interval is started by the call, and whatever happens afterwards (calls of
  \<^verbatim>\<open>stop()\<close> among it) changes nothing but the variable \<^verbatim>\<open>isStopped\<close>, which
  nothing reads any more: no request, no interval, no callback, no error.
\<close>

lemma ineligible_session_inert:
  assumes "ineligible h i"
    and "w0 = instance_record h i attrs \<or> w0 = instance_updateRecord h i rid"
  shows "(console w0 = [''Ackee ignores you because you are on localhost''] \<or>
      console w0 = [''Ackee ignores you because you are a bot'']) \<and>
    xhrs w0 = [] \<and> timers w0 = [] \<and> timer_count w0 = 0 \<and> uncaught w0 = [] \<and> calls w0 = [] \<and>
    step h i cbs w0 Stop = w0\<lparr> isStopped := True \<rparr> \<and>
    run h i cbs w0 es = w0\<lparr> isStopped := isStopped (run h i cbs w0 es) \<rparr>"
proof -
  note s = ineligible_start [OF assms]
  from s(2,3) have "\<exists>b. run h i cbs w0 es = w0\<lparr> isStopped := b \<rparr>"
    by (intro run_idle) simp_all
  then obtain b where r: "run h i cbs w0 es = w0\<lparr> isStopped := b \<rparr>" ..
  have "run h i cbs w0 es = w0\<lparr> isStopped := isStopped (run h i cbs w0 es) \<rparr>"
    by (simp add: r)
  with s show ?thesis by (simp add: stop_def)
qed

lemma ineligible_call_inert:
  assumes "ineligible h i" and "cv \<noteq> Callbacks_null"
    and "call = record_call h i attrs cv \<or> call = updateRecord_call h i rid cv"
  shows "\<exists>cbs w0. call = Inr (cbs, w0) \<and>
    (console w0 = [''Ackee ignores you because you are on localhost''] \<or>
      console w0 = [''Ackee ignores you because you are a bot'']) \<and>
    xhrs w0 = [] \<and> timers w0 = [] \<and> timer_count w0 = 0 \<and> uncaught w0 = [] \<and> calls w0 = [] \<and>
    step h i cbs w0 Stop = w0\<lparr> isStopped := True \<rparr> \<and>
    run h i cbs w0 es = w0\<lparr> isStopped := isStopped (run h i cbs w0 es) \<rparr>"
proof -
  from assms(2) obtain cbs where c: "read_callbacks cv = Inr cbs"
    using read_callbacks_not_null by blast
  from assms(3) show ?thesis
  proof
    assume "call = record_call h i attrs cv"
    with c have r: "call = Inr (cbs, instance_record h i attrs)"
      by (simp add: record_call_def)
    from ineligible_session_inert [OF assms(1), of "instance_record h i attrs" attrs rid cbs es] r
    show ?thesis by blast
  next
    assume "call = updateRecord_call h i rid cv"
    with c have r: "call = Inr (cbs, instance_updateRecord h i rid)"
      by (simp add: updateRecord_call_def)
    from ineligible_session_inert [OF assms(1), of "instance_updateRecord h i rid" attrs rid cbs es] r
    show ?thesis by blast
  qed
qed

text \<open>
  Claim C2. For every call of \<^verbatim>\<open>_record\<close> or \<^verbatim>\<open>_updateRecord\<close> on an ineligible
  visit, a warning is to be written and an inert handle returned, with no request made.
  Both functions read \<^verbatim>\<open>callbacks.onCreate\<close> or \<^verbatim>\<open>callbacks.onUpdate\<close> before
  they check the hostname and the user agent, and the default parameter
  \<^verbatim>\<open>callbacks = {}\<close> replaces \<^verbatim>\<open>undefined\<close> only. So with \<^verbatim>\<open>null\<close> for the
  callbacks the call throws a \<^verbatim>\<open>TypeError\<close> on every visit, an ineligible one
  included: no warning is written and no handle is returned. With the callbacks left
  out, the same calls on the same ineligible visit (the page on \<^verbatim>\<open>localhost\<close>) write
  the warning and return.
\<close>

theorem ineligible_null_callbacks_throw:
  "record_call h i attrs Callbacks_null = Inl TypeError \<and>
   updateRecord_call h i rid Callbacks_null = Inl TypeError \<and>
   ineligible example_localhost example_instance \<and>
   record_call example_localhost example_instance example_attrs Callbacks_null = Inl TypeError \<and>
   updateRecord_call example_localhost example_instance (Str ''abc123'') Callbacks_null =
     Inl TypeError \<and>
   record_call example_localhost example_instance example_attrs Callbacks_undefined =
     Inr (no_callbacks,
          console_warn ''Ackee ignores you because you are on localhost'' new_world) \<and>
   updateRecord_call example_localhost example_instance (Str ''abc123'') Callbacks_undefined =
     Inr (no_callbacks,
          console_warn ''Ackee ignores you because you are on localhost'' new_world)"
proof -
  have "ineligible example_localhost example_instance"
    by (simp add: ineligible_def example_localhost_def example_instance_def isLocalhost_def)
  moreover have "ignoreLocalhost (i_opts example_instance) \<and>
      isLocalhost (location_hostname example_localhost)"
    by (simp add: example_localhost_def example_instance_def isLocalhost_def)
  ultimately show ?thesis
    by (simp add: record_call_def updateRecord_call_def read_callbacks_def no_callbacks_def
        instance_record_def instance_updateRecord_def)
qed

section \<open>Sessions: the reserved record id\<close>

text \<open>
  Claim C3. For every session started by \<^verbatim>\<open>_record\<close> whose creation request is
  answered with the id \<^verbatim>\<open>88888888-8888-8888-8888-888888888888\<close>: a warning is
  written and nothing else happens, then or later. No interval is ever started, the
  callback \<^verbatim>\<open>onCreate\<close> is never called, and no refresh request is sent.
\<close>

theorem fake_record_id_stops_session:
  assumes "\<not> ineligible h i"
    and "list_all (\<lambda>e. \<not> delivers 0 e) es1"
    and "onload (JSON_parse h) status responseText = Inr json"
    and "created_id json = Inr (Str fakeRecordId)"
  shows "let w = run h i cbs (instance_record h i attrs) (es1 @ Load 0 status responseText # es2) in
    console w = [''Ackee ignores you because this is your own site''] \<and>
    timer_count w = 0 \<and> timers w = [] \<and> calls w = [] \<and> uncaught w = [] \<and>
    list_all (\<lambda>c. \<not> is_OnCreate c) (calls w) \<and>
    list_all (\<lambda>x. \<not> is_refresh x) (xhrs w)"
proof -
  from fake_creation_run [OF assms, of cbs attrs es2]
  obtain b where "run h i cbs (instance_record h i attrs) (es1 @ Load 0 status responseText # es2) =
    (instance_record h i attrs)
      \<lparr> console := [''Ackee ignores you because this is your own site''],
        loaded := {0}, isStopped := b \<rparr>"
    by blast
  then show ?thesis
    using eligible_record_start [OF assms(1), of attrs]
    by (simp add: new_world_def is_refresh_def)
qed

theorem fake_record_id_stops_session_witness:
  "\<not> ineligible example_host example_instance \<and>
   list_all (\<lambda>e. \<not> delivers 0 e) [Stop, Load 1 200 updated_body] \<and>
   onload (JSON_parse example_host) 200 ignored_body = Inr (created_json fakeRecordId) \<and>
   created_id (created_json fakeRecordId) = Inr (Str fakeRecordId) \<and>
   (let w = run example_host example_instance no_callbacks
        (instance_record example_host example_instance example_attrs)
        ([Stop, Load 1 200 updated_body] @ Load 0 200 ignored_body # [Tick 0, Tick 0]) in
    console w = [''Ackee ignores you because this is your own site''] \<and>
    timer_count w = 0 \<and> timers w = [] \<and> calls w = [] \<and> uncaught w = [] \<and>
    list_all (\<lambda>c. \<not> is_OnCreate c) (calls w) \<and>
    list_all (\<lambda>x. \<not> is_refresh x) (xhrs w))"
proof -
  have h1: "\<not> ineligible example_host example_instance"
    using example_host_eligible by (simp add: ineligible_def)
  have h2: "list_all (\<lambda>e. \<not> delivers 0 e) [Stop, Load 1 200 updated_body]"
    by (simp add: delivers_def)
  note h3 = example_responses(2)
  have h4: "created_id (created_json fakeRecordId) = Inr (Str fakeRecordId)"
    by (rule example_responses(4))
  from h1 h2 h3 h4
    fake_record_id_stops_session [OF h1 h2 h3 h4, of no_callbacks example_attrs "[Tick 0, Tick 0]"]
  show ?thesis by blast
qed

section \<open>Sessions: at most one timer\<close>

lemma session_inv_step:
  assumes inv: "session_inv w"
  shows "session_inv (step h i cbs w e)"
proof (cases e)
  case Stop
  with inv show ?thesis by (simp add: session_inv_def stop_def)
next
  case (Tick t)
  show ?thesis
  proof (cases "find (\<lambda>tm. timer_id tm = t) (timers w)")
    case None
    with Tick inv show ?thesis by simp
  next
    case (Some tm)
    show ?thesis
    proof (cases "isStopped w")
      case True
      have "length (filter (\<lambda>tm'. timer_id tm' \<noteq> timer_id tm) (timers w)) \<le> length (timers w)"
        by (rule length_filter_le)
      also from inv have "\<dots> \<le> timer_count w"
        by (simp add: session_inv_def)
      finally have "length (timers (clearInterval (timer_id tm) w)) \<le> timer_count w"
        by (simp add: clearInterval_def)
      moreover have "timer_count (clearInterval (timer_id tm) w) = timer_count w"
        "xhrs (clearInterval (timer_id tm) w) = xhrs w"
        "loaded (clearInterval (timer_id tm) w) = loaded w"
        by (simp_all add: clearInterval_def)
      ultimately have "session_inv (clearInterval (timer_id tm) w)"
        using inv by (simp add: session_inv_def)
      with Tick Some True show ?thesis
        by (simp add: interval_callback_def)
    next
      case False
      with inv Tick Some show ?thesis
        by (auto simp: session_inv_def interval_callback_def updateRecord_def send_def
            nth_append is_creation_def)
    qed
  qed
next
  case (Load n status body)
  show ?thesis
  proof (cases "n < length (xhrs w) \<and> n \<notin> loaded w")
    case False
    with Load inv show ?thesis by auto
  next
    case True
    let ?w' = "xhr_load h cbs n status body w"
    have x: "xhrs ?w' = xhrs w" and l: "loaded ?w' = insert n (loaded w)"
      by (simp_all add: xhr_load_xhrs xhr_load_loaded)
    show ?thesis
    proof (cases "xhr_next (xhrs w ! n)")
      case CreateNext
      with inv True have n0: "n = 0" and tc: "timer_count w = 0"
        by (auto simp: session_inv_def is_creation_def)
      with inv have "timers w = []" by (simp add: session_inv_def)
      with CreateNext tc
      have "timer_count ?w' \<le> 1 \<and> length (timers ?w') \<le> timer_count ?w'"
        by (intro xhr_load_creation) auto
      with inv n0 x l Load True show ?thesis
        by (simp add: session_inv_def)
    next
      case (UpdateNext rid)
      then have "timers ?w' = timers w" "timer_count ?w' = timer_count w"
        by (simp_all add: xhr_load_refresh)
      with inv x l Load True show ?thesis
        by (simp add: session_inv_def)
    qed
  qed
qed

lemma session_inv_run: "session_inv w \<Longrightarrow> session_inv (run h i cbs w es)"
  by (induction es arbitrary: w) (simp_all add: run_Nil run_Cons session_inv_step)

lemma session_inv_start:
  "session_inv (instance_record h i attrs)"
  "session_inv (instance_updateRecord h i rid)"
  by (simp_all add: session_inv_def instance_record_def instance_updateRecord_def
      console_warn_def record'_def send_def setInterval_def new_world_def)

lemma ineligible_no_timer:
  assumes "ineligible h i"
    and "w0 = instance_record h i attrs \<or> w0 = instance_updateRecord h i rid"
  shows "timer_count (run h i cbs w0 es) = 0 \<and> timers (run h i cbs w0 es) = [] \<and>
    uncaught (run h i cbs w0 es) = []"
proof -
  note s = ineligible_start [OF assms]
  from s(2,3) have "\<exists>b. run h i cbs w0 es = w0\<lparr> isStopped := b \<rparr>"
    by (intro run_idle) simp_all
  then obtain b where "run h i cbs w0 es = w0\<lparr> isStopped := b \<rparr>" ..
  with s show ?thesis by simp
qed

lemma fake_update_no_timer:
  assumes "isFakeRecordId rid"
  shows "timer_count (run h i cbs (instance_updateRecord h i rid) es) = 0 \<and>
    timers (run h i cbs (instance_updateRecord h i rid) es) = [] \<and>
    uncaught (run h i cbs (instance_updateRecord h i rid) es) = []"
proof -
  let ?w0 = "instance_updateRecord h i rid"
  from assms have s: "xhrs ?w0 = []" "timers ?w0 = []" "timer_count ?w0 = 0" "uncaught ?w0 = []"
    by (simp_all add: instance_updateRecord_def console_warn_def new_world_def)
  from s(1,2) have "\<exists>b. run h i cbs ?w0 es = ?w0\<lparr> isStopped := b \<rparr>"
    by (intro run_idle) simp_all
  then obtain b where "run h i cbs ?w0 es = ?w0\<lparr> isStopped := b \<rparr>" ..
  with s show ?thesis by simp
qed

lemma fake_creation_no_timer:
  assumes "list_all (\<lambda>e. \<not> delivers 0 e) es1"
    and "onload (JSON_parse h) status responseText = Inr json"
    and "created_id json = Inr (Str fakeRecordId)"
  shows "timer_count (run h i cbs (instance_record h i attrs) (es1 @ Load 0 status responseText # es2)) = 0 \<and>
    timers (run h i cbs (instance_record h i attrs) (es1 @ Load 0 status responseText # es2)) = [] \<and>
    uncaught (run h i cbs (instance_record h i attrs) (es1 @ Load 0 status responseText # es2)) = []"
proof (cases "ineligible h i")
  case True
  then show ?thesis by (intro ineligible_no_timer) auto
next
  case False
  from fake_creation_run [OF False assms, of cbs attrs es2]
  obtain b where "run h i cbs (instance_record h i attrs) (es1 @ Load 0 status responseText # es2) =
    (instance_record h i attrs)
      \<lparr> console := [''Ackee ignores you because this is your own site''],
        loaded := {0}, isStopped := b \<rparr>"
    by blast
  then show ?thesis
    using eligible_record_start [OF False, of attrs] by (simp add: new_world_def)
qed

text \<open>
  Claim C8. In every state that a session can reach, whichever entry point started it,
  at most one interval is running; in fact \<^verbatim>\<open>setInterval\<close> is called at most once.
  A session of an ineligible visit, a session resumed with the reserved id and a
  session whose creation is answered with the reserved id never start an interval:
  after any events, calls of \<^verbatim>\<open>stop()\<close> among them, no interval was started and
  no error was thrown.
\<close>

theorem at_most_one_timer:
  "(w0 = instance_record h i attrs \<or> w0 = instance_updateRecord h i rid \<longrightarrow>
      length (timers (run h i cbs w0 es)) \<le> 1 \<and> timer_count (run h i cbs w0 es) \<le> 1) \<and>
   (ineligible h i \<and> (w0 = instance_record h i attrs \<or> w0 = instance_updateRecord h i rid) \<longrightarrow>
      timer_count (run h i cbs w0 es) = 0 \<and> timers (run h i cbs w0 es) = [] \<and>
      uncaught (run h i cbs w0 es) = []) \<and>
   (isFakeRecordId rid \<longrightarrow>
      timer_count (run h i cbs (instance_updateRecord h i rid) es) = 0 \<and>
      timers (run h i cbs (instance_updateRecord h i rid) es) = [] \<and>
      uncaught (run h i cbs (instance_updateRecord h i rid) es) = []) \<and>
   (list_all (\<lambda>e. \<not> delivers 0 e) es1 \<and> onload (JSON_parse h) status responseText = Inr json \<and>
    created_id json = Inr (Str fakeRecordId) \<longrightarrow>
      timer_count (run h i cbs (instance_record h i attrs) (es1 @ Load 0 status responseText # es2)) = 0 \<and>
      timers (run h i cbs (instance_record h i attrs) (es1 @ Load 0 status responseText # es2)) = [] \<and>
      uncaught (run h i cbs (instance_record h i attrs) (es1 @ Load 0 status responseText # es2)) = [])"
proof (intro conjI)
  show "w0 = instance_record h i attrs \<or> w0 = instance_updateRecord h i rid \<longrightarrow>
      length (timers (run h i cbs w0 es)) \<le> 1 \<and> timer_count (run h i cbs w0 es) \<le> 1"
  proof
    assume "w0 = instance_record h i attrs \<or> w0 = instance_updateRecord h i rid"
    then have "session_inv w0" by (auto simp: session_inv_start)
    then have "session_inv (run h i cbs w0 es)" by (rule session_inv_run)
    then show "length (timers (run h i cbs w0 es)) \<le> 1 \<and> timer_count (run h i cbs w0 es) \<le> 1"
      by (simp add: session_inv_def)
  qed
  show "ineligible h i \<and> (w0 = instance_record h i attrs \<or> w0 = instance_updateRecord h i rid) \<longrightarrow>
      timer_count (run h i cbs w0 es) = 0 \<and> timers (run h i cbs w0 es) = [] \<and>
      uncaught (run h i cbs w0 es) = []"
    using ineligible_no_timer [of h i w0 attrs rid cbs es] by auto
  show "isFakeRecordId rid \<longrightarrow>
      timer_count (run h i cbs (instance_updateRecord h i rid) es) = 0 \<and>
      timers (run h i cbs (instance_updateRecord h i rid) es) = [] \<and>
      uncaught (run h i cbs (instance_updateRecord h i rid) es) = []"
    using fake_update_no_timer [of rid h i cbs es] by auto
  show "list_all (\<lambda>e. \<not> delivers 0 e) es1 \<and> onload (JSON_parse h) status responseText = Inr json \<and>
    created_id json = Inr (Str fakeRecordId) \<longrightarrow>
      timer_count (run h i cbs (instance_record h i attrs) (es1 @ Load 0 status responseText # es2)) = 0 \<and>
      timers (run h i cbs (instance_record h i attrs) (es1 @ Load 0 status responseText # es2)) = [] \<and>
      uncaught (run h i cbs (instance_record h i attrs) (es1 @ Load 0 status responseText # es2)) = []"
    using fake_creation_no_timer [of es1 h status responseText json i cbs attrs es2] by auto
qed

theorem at_most_one_timer_witness:
  "length (timers (run example_host example_instance no_callbacks
      (instance_record example_host example_instance example_attrs)
      [Load 0 200 created_body, Tick 0, Load 1 200 updated_body, Tick 0])) \<le> 1 \<and>
   ineligible example_localhost example_instance \<and>
   timer_count (run example_localhost example_instance no_callbacks
      (instance_updateRecord example_localhost example_instance (Str ''abc123''))
      [Tick 0, Stop, Tick 0]) = 0 \<and>
   isFakeRecordId (Str fakeRecordId) \<and>
   timer_count (run example_host example_instance no_callbacks
      (instance_updateRecord example_host example_instance (Str fakeRecordId))
      [Tick 0, Stop, Tick 0]) = 0 \<and>
   list_all (\<lambda>e. \<not> delivers 0 e) [Stop] \<and>
   onload (JSON_parse example_host) 200 ignored_body = Inr (created_json fakeRecordId) \<and>
   created_id (created_json fakeRecordId) = Inr (Str fakeRecordId) \<and>
   timer_count (run example_host example_instance no_callbacks
      (instance_record example_host example_instance example_attrs)
      ([Stop] @ Load 0 200 ignored_body # [Tick 0])) = 0"
proof -
  note t1 = at_most_one_timer [of "instance_record example_host example_instance example_attrs"
      example_host example_instance example_attrs Null no_callbacks
      "[Load 0 200 created_body, Tick 0, Load 1 200 updated_body, Tick 0]"]
  note t2 = at_most_one_timer [of
      "instance_updateRecord example_localhost example_instance (Str ''abc123'')"
      example_localhost example_instance example_attrs "Str ''abc123''" no_callbacks
      "[Tick 0, Stop, Tick 0]"]
  note t3 = at_most_one_timer [of _ example_host example_instance example_attrs
      "Str fakeRecordId" no_callbacks "[Tick 0, Stop, Tick 0]" "[Stop]" 200 ignored_body
      "created_json fakeRecordId" "[Tick 0]"]
  have h2: "ineligible example_localhost example_instance"
    by (simp add: ineligible_def example_localhost_def example_instance_def isLocalhost_def)
  have h3: "isFakeRecordId (Str fakeRecordId)"
    by (simp add: isFakeRecordId_def)
  have h4: "list_all (\<lambda>e. \<not> delivers 0 e) [Stop]"
    by (simp add: delivers_def)
  note h5 = example_responses(2)
  have h6: "created_id (created_json fakeRecordId) = Inr (Str fakeRecordId)"
    by (rule example_responses(4))
  from t1 have c1: "length (timers (run example_host example_instance no_callbacks
      (instance_record example_host example_instance example_attrs)
      [Load 0 200 created_body, Tick 0, Load 1 200 updated_body, Tick 0])) \<le> 1"
    by blast
  from t2 h2 have c2: "timer_count (run example_localhost example_instance no_callbacks
      (instance_updateRecord example_localhost example_instance (Str ''abc123''))
      [Tick 0, Stop, Tick 0]) = 0"
    by blast
  from t3 h3 have c3: "timer_count (run example_host example_instance no_callbacks
      (instance_updateRecord example_host example_instance (Str fakeRecordId))
      [Tick 0, Stop, Tick 0]) = 0"
    by blast
  from t3 h4 h5 h6 have c4: "timer_count (run example_host example_instance no_callbacks
      (instance_record example_host example_instance example_attrs)
      ([Stop] @ Load 0 200 ignored_body # [Tick 0])) = 0"
    by blast
  from c1 h2 c2 h3 c3 h4 h5 h6 c4 show ?thesis
    by (intro conjI)
qed

section \<open>Transport\<close>

lemma send_withCredentials:
  "list_all xhr_withCredentials (xhrs w) \<Longrightarrow> list_all xhr_withCredentials (xhrs (send url body nxt w))"
  by (simp add: send_def)

lemma step_withCredentials:
  assumes "list_all xhr_withCredentials (xhrs w)"
  shows "list_all xhr_withCredentials (xhrs (step h i cbs w e))"
proof (cases e)
  case Stop
  with assms show ?thesis by (simp add: stop_def)
next
  case (Tick t)
  with assms show ?thesis
    by (simp add: interval_callback_def clearInterval_def updateRecord_def send_withCredentials
        split: option.splits)
next
  case (Load n status body)
  with assms show ?thesis by (simp add: xhr_load_xhrs)
qed

lemma run_withCredentials:
  "list_all xhr_withCredentials (xhrs w) \<Longrightarrow> list_all xhr_withCredentials (xhrs (run h i cbs w es))"
  by (induction es arbitrary: w) (simp_all add: run_Nil run_Cons step_withCredentials)

lemma start_withCredentials:
  "list_all xhr_withCredentials (xhrs (instance_record h i attrs))"
  "list_all xhr_withCredentials (xhrs (instance_updateRecord h i rid))"
  by (simp_all add: instance_record_def instance_updateRecord_def console_warn_def record'_def
      send_def setInterval_def new_world_def)

lemma onload_errors_payload:
  assumes "parse responseText = Some json" and "get_prop json ''errors'' = Inr errs" and "not_nullish errs"
  shows "\<exists>e. onload parse 200 responseText = Inl e"
    and "get_index0 errs = Inr first_error \<Longrightarrow> get_prop first_error ''message'' = Inr msg \<Longrightarrow>
      onload parse 200 responseText = Inl (Error msg)"
  using assms by (auto simp: onload_def split: sum.splits)

text \<open>
  Claim C4. For every exchange made by \<^verbatim>\<open>send\<close>: a status other than 200, a body
  that \<^verbatim>\<open>JSON.parse\<close> rejects, and a parsed response whose \<^verbatim>\<open>errors\<close> is neither
  \<^verbatim>\<open>null\<close> nor \<^verbatim>\<open>undefined\<close> each make \<^verbatim>\<open>xhr.onload\<close> throw (in the last case
  an \<^verbatim>\<open>Error\<close> with the message of the first listed error, when there is one).
  Nothing catches the error: the request counts as answered, the error is recorded as
  uncaught, and nothing that \<^verbatim>\<open>next\<close> would do happens. Every request is sent with
  \<^verbatim>\<open>withCredentials = true\<close>.
\<close>

theorem transport_errors_uncaught:
  "(status \<noteq> 200 \<longrightarrow>
      onload parse status responseText = Inl (Error (Str ''Server returned with an unhandled status''))) \<and>
   (parse responseText = None \<longrightarrow>
      onload parse 200 responseText = Inl (Error (Str ''Failed to parse response from server''))) \<and>
   (parse responseText = Some json \<and> get_prop json ''errors'' = Inr errs \<and> not_nullish errs \<longrightarrow>
      (\<exists>e. onload parse 200 responseText = Inl e) \<and>
      (get_index0 errs = Inr first_error \<and> get_prop first_error ''message'' = Inr msg \<longrightarrow>
         onload parse 200 responseText = Inl (Error msg))) \<and>
   (n < length (xhrs w) \<and> n \<notin> loaded w \<and> onload (JSON_parse h) status responseText = Inl e \<longrightarrow>
      step h i cbs w (Load n status responseText) =
        w\<lparr> loaded := insert n (loaded w), uncaught := uncaught w @ [e] \<rparr>) \<and>
   xhrs (send url body nxt w) = xhrs w @ [last (xhrs (send url body nxt w))] \<and>
   xhr_withCredentials (last (xhrs (send url body nxt w))) \<and>
   (w0 = instance_record h i attrs \<or> w0 = instance_updateRecord h i rid \<longrightarrow>
      list_all xhr_withCredentials (xhrs (run h i cbs w0 es)))"
proof (intro conjI impI)
  show "onload parse status responseText = Inl (Error (Str ''Server returned with an unhandled status''))"
    if "status \<noteq> 200"
    using that by (simp add: onload_def)
  show "onload parse 200 responseText = Inl (Error (Str ''Failed to parse response from server''))"
    if "parse responseText = None"
    using that by (simp add: onload_def)
  show "\<exists>e. onload parse 200 responseText = Inl e"
    if "parse responseText = Some json \<and> get_prop json ''errors'' = Inr errs \<and> not_nullish errs"
    using that onload_errors_payload(1) [of parse responseText json errs] by blast
  show "onload parse 200 responseText = Inl (Error msg)"
    if "parse responseText = Some json \<and> get_prop json ''errors'' = Inr errs \<and> not_nullish errs"
      and "get_index0 errs = Inr first_error \<and> get_prop first_error ''message'' = Inr msg"
    using that onload_errors_payload(2) [of parse responseText json errs first_error msg] by blast
  show "step h i cbs w (Load n status responseText) =
      w\<lparr> loaded := insert n (loaded w), uncaught := uncaught w @ [e] \<rparr>"
    if "n < length (xhrs w) \<and> n \<notin> loaded w \<and> onload (JSON_parse h) status responseText = Inl e"
    using that by (simp add: xhr_load_def uncaught_error_def)
  show "xhrs (send url body nxt w) = xhrs w @ [last (xhrs (send url body nxt w))]"
    by (simp add: send_def)
  show "xhr_withCredentials (last (xhrs (send url body nxt w)))"
    by (simp add: send_def)
  show "list_all xhr_withCredentials (xhrs (run h i cbs w0 es))"
    if "w0 = instance_record h i attrs \<or> w0 = instance_updateRecord h i rid"
    using that by (auto intro: run_withCredentials simp: start_withCredentials)
qed

theorem transport_errors_uncaught_witness:
  "(500::nat) \<noteq> 200 \<and>
   onload example_parse 500 created_body =
     Inl (Error (Str ''Server returned with an unhandled status'')) \<and>
   example_parse ''<html>'' = None \<and>
   onload example_parse 200 ''<html>'' =
     Inl (Error (Str ''Failed to parse response from server'')) \<and>
   example_parse failed_body = Some (Obj [(''errors'', Arr [Obj [(''message'', Str ''Unknown domain'')]])]) \<and>
   not_nullish (Arr [Obj [(''message'', Str ''Unknown domain'')]]) \<and>
   onload example_parse 200 failed_body = Inl (Error (Str ''Unknown domain'')) \<and>
   0 < length (xhrs example_session) \<and> 0 \<notin> loaded example_session \<and>
   step example_host example_instance no_callbacks example_session (Load 0 200 failed_body) =
     example_session \<lparr> loaded := insert 0 (loaded example_session),
       uncaught := uncaught example_session @ [Error (Str ''Unknown domain'')] \<rparr> \<and>
   list_all xhr_withCredentials
     (xhrs (run example_host example_instance no_callbacks
        (instance_record example_host example_instance example_attrs)
        [Load 0 200 created_body, Tick 0]))"
proof -
  let ?errs = "Arr [Obj [(''message'', Str ''Unknown domain'')]]"
  let ?json = "Obj [(''errors'', ?errs)]"
  have p: "JSON_parse example_host = example_parse"
    by (simp add: example_host_def)
  have a1: "(500::nat) \<noteq> 200" by simp
  have a2: "example_parse ''<html>'' = None"
    by (simp add: example_parse_def created_body_def ignored_body_def updated_body_def
        failed_body_def)
  have a3: "example_parse failed_body = Some ?json"
    by (simp add: example_parse_def created_body_def ignored_body_def updated_body_def
        failed_body_def)
  have a4: "get_prop ?json ''errors'' = Inr ?errs" by simp
  have a5: "not_nullish ?errs" by (simp add: not_nullish_def)
  have a6: "get_index0 ?errs = Inr (Obj [(''message'', Str ''Unknown domain'')])" by simp
  have a7: "get_prop (Obj [(''message'', Str ''Unknown domain'')]) ''message'' =
      Inr (Str ''Unknown domain'')" by simp
  have a8: "0 < length (xhrs example_session)" "0 \<notin> loaded example_session"
    by (simp_all add: example_session_value)
  from transport_errors_uncaught [of 500 example_parse created_body] a1
  have c1: "onload example_parse 500 created_body =
      Inl (Error (Str ''Server returned with an unhandled status''))"
    by blast
  from transport_errors_uncaught [of _ example_parse "''<html>''"] a2
  have c2: "onload example_parse 200 ''<html>'' =
      Inl (Error (Str ''Failed to parse response from server''))"
    by blast
  from transport_errors_uncaught [of _ example_parse failed_body ?json ?errs
      "Obj [(''message'', Str ''Unknown domain'')]" "Str ''Unknown domain''"] a3 a4 a5 a6 a7
  have c3: "onload example_parse 200 failed_body = Inl (Error (Str ''Unknown domain''))"
    by blast
  from transport_errors_uncaught [of 200 _ failed_body _ _ _ _ 0 example_session example_host
      "Error (Str ''Unknown domain'')" example_instance no_callbacks] a8 c3 p
  have c4: "step example_host example_instance no_callbacks example_session (Load 0 200 failed_body) =
     example_session \<lparr> loaded := insert 0 (loaded example_session),
       uncaught := uncaught example_session @ [Error (Str ''Unknown domain'')] \<rparr>"
    by simp
  from transport_errors_uncaught [of _ _ _ _ _ _ _ _ _ example_host _ example_instance
      no_callbacks _ _ _ "instance_record example_host example_instance example_attrs"
      example_attrs _ "[Load 0 200 created_body, Tick 0]"]
  have c5: "list_all xhr_withCredentials
     (xhrs (run example_host example_instance no_callbacks
        (instance_record example_host example_instance example_attrs)
        [Load 0 200 created_body, Tick 0]))"
    by blast
  from a1 c1 a2 c2 a3 a5 c3 a8 c4 c5 show ?thesis
    by (intro conjI)
qed

section \<open>Refresh completed after stop\<close>

text \<open>
  Claim C10. When the response of a refresh request is delivered and passes the checks
  of \<^verbatim>\<open>xhr.onload\<close>, \<^verbatim>\<open>onUpdate(recordId)\<close> is called, whether \<^verbatim>\<open>isStopped\<close>
  is set or not. So there is a run in which \<^verbatim>\<open>stop()\<close> is called while a refresh is
  in flight and \<^verbatim>\<open>onUpdate\<close> is called after \<^verbatim>\<open>stop()\<close> has returned: the session
  is created, the first period elapses and a refresh is sent, \<^verbatim>\<open>stop()\<close> is called,
  and then the response of the refresh arrives.
\<close>

theorem onUpdate_called_after_stop:
  "(n < length (xhrs w) \<and> n \<notin> loaded w \<and> xhr_next (xhrs w ! n) = UpdateNext rid \<and>
    onload (JSON_parse h) status responseText = Inr json \<longrightarrow>
      calls (step h i cbs w (Load n status responseText)) = calls w @ [OnUpdate rid]) \<and>
   isStopped (run example_host example_instance no_callbacks example_session
      [Load 0 200 created_body, Tick 0, Stop]) \<and>
   calls (run example_host example_instance no_callbacks example_session
      [Load 0 200 created_body, Tick 0, Stop]) = [OnCreate (Str ''abc123'')] \<and>
   calls (run example_host example_instance no_callbacks example_session
      [Load 0 200 created_body, Tick 0, Stop, Load 1 200 updated_body]) =
     [OnCreate (Str ''abc123''), OnUpdate (Str ''abc123'')]"
proof (intro conjI impI)
  show "calls (step h i cbs w (Load n status responseText)) = calls w @ [OnUpdate rid]"
    if "n < length (xhrs w) \<and> n \<notin> loaded w \<and> xhr_next (xhrs w ! n) = UpdateNext rid \<and>
      onload (JSON_parse h) status responseText = Inr json"
    using that by (simp add: xhr_load_def run_next_def update_next_effect)
  show "isStopped (run example_host example_instance no_callbacks example_session
      [Load 0 200 created_body, Tick 0, Stop])"
    by (simp add: example_stopped_run example_stopped_value)
  show "calls (run example_host example_instance no_callbacks example_session
      [Load 0 200 created_body, Tick 0, Stop]) = [OnCreate (Str ''abc123'')]"
    by (simp add: example_stopped_run example_stopped_value)
  have "run example_host example_instance no_callbacks example_session
      [Load 0 200 created_body, Tick 0, Stop, Load 1 200 updated_body] =
    run example_host example_instance no_callbacks example_session
      ([Load 0 200 created_body, Tick 0, Stop] @ [Load 1 200 updated_body])"
    by simp
  also have "\<dots> = run example_host example_instance no_callbacks example_stopped
      [Load 1 200 updated_body]"
    by (simp only: run_append example_stopped_run)
  also have "\<dots> =
      step example_host example_instance no_callbacks example_stopped (Load 1 200 updated_body)"
    by (simp only: run_Cons run_Nil)
  finally have "run example_host example_instance no_callbacks example_session
      [Load 0 200 created_body, Tick 0, Stop, Load 1 200 updated_body] =
    step example_host example_instance no_callbacks example_stopped (Load 1 200 updated_body)" .
  then show "calls (run example_host example_instance no_callbacks example_session
      [Load 0 200 created_body, Tick 0, Stop, Load 1 200 updated_body]) =
     [OnCreate (Str ''abc123''), OnUpdate (Str ''abc123'')]"
    by (simp add: example_stopped_value xhr_load_def example_responses run_next_def
        example_refresh_xhr_def update_next_effect)
qed

theorem onUpdate_called_after_stop_witness:
  "isStopped example_stopped \<and>
   1 < length (xhrs example_stopped) \<and> 1 \<notin> loaded example_stopped \<and>
   xhr_next (xhrs example_stopped ! 1) = UpdateNext (Str ''abc123'') \<and>
   onload (JSON_parse example_host) 200 updated_body =
     Inr (Obj [(''data'', Obj [(''updateRecord'', Obj [(''success'', Bool True)])])]) \<and>
   calls (step example_host example_instance no_callbacks example_stopped
      (Load 1 200 updated_body)) = calls example_stopped @ [OnUpdate (Str ''abc123'')]"
proof -
  have h0: "isStopped example_stopped"
    by (simp add: example_stopped_value)
  have h1: "1 < length (xhrs example_stopped)" "1 \<notin> loaded example_stopped"
    "xhr_next (xhrs example_stopped ! 1) = UpdateNext (Str ''abc123'')"
    by (simp_all add: example_stopped_value example_refresh_xhr_def)
  note h2 = example_responses(3)
  from onUpdate_called_after_stop [of 1 example_stopped "Str ''abc123''" example_host 200
      updated_body _ example_instance no_callbacks] h1 h2
  have "calls (step example_host example_instance no_callbacks example_stopped
      (Load 1 200 updated_body)) = calls example_stopped @ [OnUpdate (Str ''abc123'')]"
    by blast
  with h0 h1 h2 show ?thesis by (intro conjI)
qed

end
